theory Spec2Isabelle
  imports Complex_Main "HOL-Library.Multiset"
begin

section \<open>JavaScript primitives used by the pipeline\<close>

text \<open>
  Strings are lists of code units (\<^typ>\<open>string\<close>); the newline is \<open>CHR 0x0A\<close>.
  Numbers are the integers the services deliver (star counts, line counts): on them the
  double arithmetic of JavaScript is exact below \<open>2^53\<close>, so \<^typ>\<open>int\<close> stands for them and
  the one division of the code is taken in the reals.
\<close>

abbreviation NL :: char where
  "NL \<equiv> CHR 0x0A"

text \<open>Truthiness of a string: \<^verbatim>\<open>Boolean(s)\<close> is false exactly for the empty string.\<close>

definition truthy :: "string \<Rightarrow> bool" where
  "truthy s = (s \<noteq> [])"

text \<open>
  A possibly absent string is \<open>None\<close> when \<^verbatim>\<open>undefined\<close> or \<^verbatim>\<open>null\<close>; it is truthy when
  it is \<open>Some s\<close> with \<open>s\<close> truthy.
\<close>

text \<open>\<^verbatim>\<open>Math.round(total / count)\<close>: the quotient, rounded to the nearest integer, a tie going up.\<close>

definition Math_round :: "real \<Rightarrow> int" where
  "Math_round x = \<lfloor>x + 1 / 2\<rfloor>"

definition round_quot :: "int \<Rightarrow> nat \<Rightarrow> int" where
  "round_quot t countStats = Math_round (real_of_int t / real countStats)"

text \<open>Template-literal rendering of an integer: decimal digits, a minus sign when negative.\<close>

definition digit_char :: "nat \<Rightarrow> char" where
  "digit_char d = ''0123456789'' ! d"

fun nat_to_string :: "nat \<Rightarrow> string" where
  "nat_to_string n =
     (if n < 10 then [digit_char n]
      else nat_to_string (n div 10) @ [digit_char (n mod 10)])"

declare nat_to_string.simps [simp del]

definition num_to_string :: "int \<Rightarrow> string" where
  "num_to_string i =
     (if i < 0 then CHR ''-'' # nat_to_string (nat (- i)) else nat_to_string (nat i))"

text \<open>\<^verbatim>\<open>xs.join(sep)\<close> on an array of strings.\<close>

fun join :: "string \<Rightarrow> string list \<Rightarrow> string" where
  "join sep [] = []"
| "join sep [x] = x"
| "join sep (x # y # ys) = x @ sep @ join sep (y # ys)"

text \<open>
  \<^verbatim>\<open>s.split(c)\<close> for a one-character separator: the pieces between the separators, empty
  pieces included (\<^verbatim>\<open>"".split("/")\<close> is \<^verbatim>\<open>[""]\<close>).
\<close>

fun split_on :: "char \<Rightarrow> string \<Rightarrow> string list" where
  "split_on c [] = [[]]"
| "split_on c (x # xs) =
     (if x = c then [] # split_on c xs
      else (case split_on c xs of
              [] \<Rightarrow> [[x]]
            | p # ps \<Rightarrow> (x # p) # ps))"

text \<open>\<^verbatim>\<open>s.replace(/\n/g, ' ')\<close>.\<close>

definition replace_newlines :: "string \<Rightarrow> string" where
  "replace_newlines s = map (\<lambda>c. if c = NL then CHR '' '' else c) s"

section \<open>Data model\<close>

text \<open>
  The persisted shapes, as \<^verbatim>\<open>scrape.js\<close> writes them and as the readers test them: a field a
  reader guards (\<^verbatim>\<open>commit.stats\<close>, \<^verbatim>\<open>repo.commits\<close>, \<^verbatim>\<open>averageAdditions !== undefined\<close>,
  \<^verbatim>\<open>commit.message\<close>) is optional, since data written by the older \<^verbatim>\<open>scrape.ts\<close> lacks it.
\<close>

record stats_t =
  additions :: int
  deletions :: int
  total_stat :: int

record commit =
  message :: "string option"
  author :: string
  diff :: string
  stats :: "stats_t option"

record repo =
  name :: string
  link :: string
  stars :: int
  top50contributors :: "string list"
  commits :: "commit list option"
  averageAdditions :: "int option"
  averageDeletions :: "int option"

section \<open>Metrics Computer (\<^verbatim>\<open>scrape.js\<close>, main, lines 505-518)\<close>

text \<open>
  The accumulator of the \<^verbatim>\<open>forEach\<close> over \<^verbatim>\<open>top3Commits\<close>:
  \<^verbatim>\<open>(totalAdditions, totalDeletions, countStats)\<close>.
\<close>

type_synonym acc = "int \<times> int \<times> nat"

fun add_stats :: "acc \<Rightarrow> commit \<Rightarrow> acc" where
  "add_stats (ta, td, n) c =
     (case stats c of
        Some s \<Rightarrow> (ta + additions s, td + deletions s, n + 1)
      | None \<Rightarrow> (ta, td, n))"

definition top3_totals :: "commit list \<Rightarrow> acc" where
  "top3_totals commitsData = foldl add_stats (0, 0, 0) (take 3 commitsData)"

definition computeAverages :: "commit list \<Rightarrow> int \<times> int" where
  "computeAverages commitsData =
     (case top3_totals commitsData of
        (totalAdditions, totalDeletions, countStats) \<Rightarrow>
          (if countStats > 0 then round_quot totalAdditions countStats else 0,
           if countStats > 0 then round_quot totalDeletions countStats else 0))"

section \<open>Commit Aggregator: the diff text (\<^verbatim>\<open>scrape.js\<close> lines 474-486)\<close>

record file_t =
  filename :: string
  patch :: "string option"

definition no_patch_block :: "file_t \<Rightarrow> string" where
  "no_patch_block file = ''File: '' @ filename file @ '' (no patch available)'' @ [NL]"

text \<open>The callback of \<^verbatim>\<open>files.map\<close>; \<^verbatim>\<open>if (file.patch)\<close> tests truthiness.\<close>

definition render_file :: "file_t \<Rightarrow> string" where
  "render_file file =
     (case patch file of
        Some p \<Rightarrow>
          if truthy p then ''File: '' @ filename file @ [NL] @ p @ [NL]
          else no_patch_block file
      | None \<Rightarrow> no_patch_block file)"

text \<open>\<^verbatim>\<open>commitDetails.files\<close> may be absent (\<open>None\<close>).\<close>

definition diffText :: "file_t list option \<Rightarrow> string" where
  "diffText files =
     (case files of
        Some fs \<Rightarrow>
          if length fs > 0 then join [NL] (map render_file fs)
          else ''No file changes found for this commit.''
      | None \<Rightarrow> ''No file changes found for this commit.'')"

section \<open>Digest Summarizer (\<^verbatim>\<open>summarizeScrapedData\<close>)\<close>

text \<open>
  \<^verbatim>\<open>scrapedData.sort((a, b) => b.stars - a.stars)\<close>: \<^verbatim>\<open>Array.prototype.sort\<close> is stable and
  sorts the array it is called on, in place; the result is that same array. Descending
  stars is ascending \<open>- stars\<close>, and \<^const>\<open>sort_key\<close> is a stable insertion sort.
\<close>

definition sort_by_stars :: "repo list \<Rightarrow> repo list" where
  "sort_by_stars rs = sort_key (\<lambda>r. - stars r) rs"

definition header :: "repo \<Rightarrow> string" where
  "header topRepo =
     ''Top Repository:'' @ [NL] @
     ''Name: '' @ name topRepo @ [NL] @
     ''Stars: '' @ num_to_string (stars topRepo) @ [NL] @
     ''Link: '' @ link topRepo @ [NL, NL]"

text \<open>What one round of the \<^verbatim>\<open>forEach\<close> appends; \<open>index\<close> counts from 0.\<close>

definition commit_block :: "nat \<Rightarrow> commit \<Rightarrow> string" where
  "commit_block index c =
     (let diffExcerpt = replace_newlines (take 200 (diff c))
      in ''Commit '' @ num_to_string (int index + 1) @ '' by '' @ author c @ '':'' @ [NL] @
         diffExcerpt @ ''...'' @ [NL, NL])"

definition commits_heading :: string where
  "commits_heading = ''Top 3 Recent Commits:'' @ [NL]"

text \<open>
  The \<^verbatim>\<open>forEach\<close> of \<^verbatim>\<open>scrape.js\<close>: it appends to \<open>summary\<close> and adds up the stats of the
  commits that have them.
\<close>

fun forEach_commit :: "nat \<Rightarrow> commit list \<Rightarrow> string \<times> acc \<Rightarrow> string \<times> acc" where
  "forEach_commit index [] st = st"
| "forEach_commit index (c # rest) (summary, a) =
     forEach_commit (index + 1) rest (summary @ commit_block index c, add_stats a c)"

definition average_line :: "int \<Rightarrow> int \<Rightarrow> string" where
  "average_line avgAdditions avgDeletions =
     ''Average changes per commit: +'' @ num_to_string avgAdditions @ '' lines, -'' @
     num_to_string avgDeletions @ '' lines.'' @ [NL]"

definition commits_section :: "repo \<Rightarrow> string" where
  "commits_section topRepo =
     (case commits topRepo of
        None \<Rightarrow> []
      | Some cs \<Rightarrow>
          if length cs > 0 then
            (let commitsToInclude = take 3 cs
             in case forEach_commit 0 commitsToInclude (commits_heading, (0, 0, 0)) of
                  (summary, totalAdditions, totalDeletions, countStats) \<Rightarrow>
                    if countStats > 0 then
                      summary @ average_line (round_quot totalAdditions countStats)
                                             (round_quot totalDeletions countStats)
                    else summary)
          else [])"

text \<open>
  The function of \<^verbatim>\<open>scrape.js\<close>. The argument is \<open>None\<close> when \<^verbatim>\<open>scrapedData\<close> is
  missing or not an array. The result is the returned string together with the argument
  array as the call leaves it (\<^verbatim>\<open>sort\<close> has reordered it). \<^const>\<open>hd\<close> is applied to the
  sorted non-empty array only.
\<close>

definition summarizeScrapedData :: "repo list option \<Rightarrow> string \<times> repo list option" where
  "summarizeScrapedData scrapedData =
     (case scrapedData of
        None \<Rightarrow> (''No repository data available.'', None)
      | Some rs \<Rightarrow>
          if length rs = 0 then (''No repository data available.'', Some rs)
          else
            (let sortedRepos = sort_by_stars rs;
                 topRepo = hd sortedRepos
             in (header topRepo @ commits_section topRepo, Some sortedRepos)))"

text \<open>
  The function of the same name in \<^verbatim>\<open>email.js\<close> (the stage that feeds the generator): the
  loop only appends, and the averages are read from the repository's own fields.
\<close>

fun forEach_commit_email :: "nat \<Rightarrow> commit list \<Rightarrow> string \<Rightarrow> string" where
  "forEach_commit_email index [] summary = summary"
| "forEach_commit_email index (c # rest) summary =
     forEach_commit_email (index + 1) rest (summary @ commit_block index c)"

definition commits_section_email :: "repo \<Rightarrow> string" where
  "commits_section_email topRepo =
     (case commits topRepo of
        None \<Rightarrow> []
      | Some cs \<Rightarrow>
          if length cs > 0 then
            forEach_commit_email 0 (take 3 cs) commits_heading
          else [])"

definition averages_email :: "repo \<Rightarrow> string" where
  "averages_email topRepo =
     (case (averageAdditions topRepo, averageDeletions topRepo) of
        (Some a, Some d) \<Rightarrow> average_line a d
      | _ \<Rightarrow> [])"

definition summarizeScrapedData_email :: "repo list option \<Rightarrow> string \<times> repo list option" where
  "summarizeScrapedData_email scrapedData =
     (case scrapedData of
        None \<Rightarrow> (''No repository data available.'', None)
      | Some rs \<Rightarrow>
          if length rs = 0 then (''No repository data available.'', Some rs)
          else
            (let sortedRepos = sort_by_stars rs;
                 topRepo = hd sortedRepos
             in (header topRepo @ commits_section_email topRepo @ averages_email topRepo,
                 Some sortedRepos)))"

section \<open>Organization Resolver (\<^verbatim>\<open>scrape.js\<close> lines 380-391, \<^verbatim>\<open>scrape.ts\<close> lines 60-71)\<close>

text \<open>
  \<^verbatim>\<open>new URL(website)\<close> belongs to the platform: the parser is a parameter, \<open>None\<close> when
  the constructor throws. Only \<^verbatim>\<open>pathname\<close> is read from the result.
\<close>

record url =
  pathname :: string

datatype js_error = TypeError string | Error string | RequestError string

definition resolveOrg :: "(string \<Rightarrow> url option) \<Rightarrow> string \<Rightarrow> js_error + string" where
  "resolveOrg parseURL website =
     (case parseURL website of
        None \<Rightarrow> Inl (TypeError ''Invalid URL'')
      | Some u \<Rightarrow>
          (let pathParts = filter truthy (split_on CHR ''/'' (pathname u))
           in case pathParts of
                [] \<Rightarrow> Inl (Error ''Invalid URL path. Could not extract organization name.'')
              | orgName # _ \<Rightarrow> Inr orgName))"

section \<open>The outside world\<close>

text \<open>
  Every network-bound call suspends the caller until the answer is there, and the stages
  issue them one after the other. The answers are not the program's: they are given by
  oracles, indexed by the number of calls issued so far (\<open>clock\<close>), so that two calls with
  the same arguments may be answered differently. \<open>Inl\<close> is a rejected promise (or a
  response the code cannot read), caught or not as the source has it.
\<close>

datatype db_error = DbError string

record user_profile =
  profile_name :: "string option"
  bio :: "string option"

record gh_repo =
  gh_name :: string
  html_url :: string
  stargazers_count :: int

record commit_details =
  author_login :: "string option"
  commit_author_name :: "string option"
  commit_message :: string
  files :: "file_t list option"
  detail_stats :: "stats_t option"

record nice_commit =
  message_nc :: "string option"
  messageSummary :: string
  author_nc :: string
  summary :: string
  stats_nc :: "stats_t option"

record person =
  username :: string
  name_p :: "string option"
  technologies :: "string list"

record nice_repo =
  name_n :: string
  link_n :: string
  stars_n :: int
  top50contributors_n :: "string list"
  commits_n :: "nice_commit list"
  averageAdditions_n :: "int option"
  averageDeletions_n :: "int option"
  people :: "person list"

record company =
  company_id :: int
  company_name :: string
  website :: string
  manager_name :: "string option"
  scraped_data :: "repo list option"
  nice_data :: "nice_repo list option"
  email :: "string option"

text \<open>The answer of \<^verbatim>\<open>supabase.from('data').select('*').eq('id', id).single()\<close>.\<close>

record select_response =
  data :: "company option"
  error :: "db_error option"

text \<open>The field set of an \<^verbatim>\<open>update\<close> call.\<close>

datatype update_fields = ScrapedData "repo list" | NiceData "nice_repo list" | Email string

text \<open>
  The services. \<open>db_fault\<close> is what the store client answers instead of looking the row
  up, when it does (a failed lookup, or a null row); \<open>email_prompt\<close> is the fixed text of
  the template literal of \<^verbatim>\<open>generateEmail\<close> around its three holes.
\<close>

record services =
  parseURL :: "string \<Rightarrow> url option"
  db_fault :: "nat \<Rightarrow> select_response option"
  db_update_fault :: "nat \<Rightarrow> db_error option"
  listForOrg :: "nat \<Rightarrow> string \<Rightarrow> js_error + gh_repo list"
  listContributors :: "nat \<Rightarrow> string \<Rightarrow> string \<Rightarrow> js_error + string list"
  getByUsername :: "nat \<Rightarrow> string \<Rightarrow> js_error + user_profile"
  listCommits :: "nat \<Rightarrow> string \<Rightarrow> string \<Rightarrow> js_error + string list"
  getCommit :: "nat \<Rightarrow> string \<Rightarrow> string \<Rightarrow> string \<Rightarrow> js_error + commit_details"
  listForUser :: "nat \<Rightarrow> string \<Rightarrow> js_error + string list option"
  listLanguages :: "nat \<Rightarrow> string \<Rightarrow> string \<Rightarrow> js_error + string list"
  chat_completion :: "nat \<Rightarrow> string \<Rightarrow> js_error + string option"
  email_prompt :: "string \<Rightarrow> string \<Rightarrow> string \<Rightarrow> string"

text \<open>
  The state a stage runs in: the calls issued so far, the rows of the store, the updates
  issued to the store (in order), and what \<^verbatim>\<open>console.error\<close> has printed (the first
  argument of each call).
\<close>

record world =
  clock :: nat
  rows :: "int \<rightharpoonup> company"
  updates :: "(int \<times> update_fields) list"
  errlog :: "string list"

definition tick :: "world \<Rightarrow> world" where
  "tick w = w\<lparr>clock := clock w + 1\<rparr>"

definition console_error :: "string \<Rightarrow> world \<Rightarrow> world" where
  "console_error msg w = w\<lparr>errlog := errlog w @ [msg]\<rparr>"

text \<open>Reading one row by id: the row or not-found, unless the client answers otherwise.\<close>

definition db_select :: "services \<Rightarrow> int \<Rightarrow> world \<Rightarrow> select_response \<times> world" where
  "db_select sv cid w =
     ((case db_fault sv (clock w) of
         Some r \<Rightarrow> r
       | None \<Rightarrow>
           (case rows w cid of
              Some c \<Rightarrow> \<lparr>data = Some c, error = None\<rparr>
            | None \<Rightarrow> \<lparr>data = None, error = Some (DbError ''PGRST116'')\<rparr>)),
      tick w)"

definition apply_fields :: "update_fields \<Rightarrow> company \<Rightarrow> company" where
  "apply_fields f c =
     (case f of
        ScrapedData rs \<Rightarrow> c\<lparr>scraped_data := Some rs\<rparr>
      | NiceData ns \<Rightarrow> c\<lparr>nice_data := Some ns\<rparr>
      | Email e \<Rightarrow> c\<lparr>email := Some e\<rparr>)"

text \<open>Updating by id with a partial field set: the call is issued; it may be refused.\<close>

definition db_update :: "services \<Rightarrow> int \<Rightarrow> update_fields \<Rightarrow> world \<Rightarrow> db_error option \<times> world" where
  "db_update sv cid f w =
     (let updateError = db_update_fault sv (clock w);
          rows' = (case updateError of
                     Some e \<Rightarrow> rows w
                   | None \<Rightarrow>
                       (case rows w cid of
                          Some c \<Rightarrow> (rows w)(cid \<mapsto> apply_fields f c)
                        | None \<Rightarrow> rows w))
      in (updateError,
          w\<lparr>clock := clock w + 1, rows := rows', updates := updates w @ [(cid, f)]\<rparr>))"

section \<open>The scrape stage (\<^verbatim>\<open>scrape.js\<close>, main)\<close>

text \<open>
  The callback of \<^verbatim>\<open>Promise.all\<close>: a contributor's full name, or the login. The requests
  are issued in the order of the list and each result is placed at its contributor's
  index, so the names are those of the one-after-the-other run below (only the order of
  the printed errors may differ).
\<close>

definition contributor_name :: "services \<Rightarrow> string \<Rightarrow> world \<Rightarrow> string \<times> world" where
  "contributor_name sv contributor_login w =
     (case getByUsername sv (clock w) contributor_login of
        Inr user \<Rightarrow>
          ((case profile_name user of
              Some fullName \<Rightarrow> if truthy fullName then fullName else contributor_login
            | None \<Rightarrow> contributor_login),
           tick w)
      | Inl err \<Rightarrow>
          (contributor_login,
           console_error (''Error fetching profile for '' @ contributor_login @ '':'') (tick w)))"

fun contributor_names :: "services \<Rightarrow> string list \<Rightarrow> world \<Rightarrow> string list \<times> world" where
  "contributor_names sv [] w = ([], w)"
| "contributor_names sv (l # ls) w =
     (case contributor_name sv l w of
        (n, w') \<Rightarrow> (case contributor_names sv ls w' of (ns, w'') \<Rightarrow> (n # ns, w'')))"

definition fetch_contributors :: "services \<Rightarrow> string \<Rightarrow> string \<Rightarrow> world \<Rightarrow> string list \<times> world" where
  "fetch_contributors sv orgName repoName w =
     (case listContributors sv (clock w) orgName repoName of
        Inr logins \<Rightarrow> contributor_names sv logins (tick w)
      | Inl contribError \<Rightarrow>
          ([], console_error (''Error fetching contributors for repository '' @ repoName @ '':'')
                 (tick w)))"

text \<open>
  \<^verbatim>\<open>commitDetails.author?.login || commitDetails.commit.author?.name || 'Unknown'\<close>.
\<close>

definition commitAuthor :: "commit_details \<Rightarrow> string" where
  "commitAuthor d =
     (let fallback = (case commit_author_name d of
                        Some n \<Rightarrow> if truthy n then n else ''Unknown''
                      | None \<Rightarrow> ''Unknown'')
      in case author_login d of
           Some l \<Rightarrow> if truthy l then l else fallback
         | None \<Rightarrow> fallback)"

definition zero_stats :: stats_t where
  "zero_stats = \<lparr>additions = 0, deletions = 0, total_stat = 0\<rparr>"

text \<open>The record pushed for one commit detail (lines 469-496).\<close>

definition commit_record :: "commit_details \<Rightarrow> commit" where
  "commit_record d =
     \<lparr>message = Some (commit_message d),
      author = commitAuthor d,
      diff = diffText (files d),
      stats = Some (case detail_stats d of Some s \<Rightarrow> s | None \<Rightarrow> zero_stats)\<rparr>"

text \<open>The loop over the commit summaries: a commit whose detail fetch fails is skipped.\<close>

fun process_commits ::
  "services \<Rightarrow> string \<Rightarrow> string \<Rightarrow> string list \<Rightarrow> commit list \<Rightarrow> world \<Rightarrow> commit list \<times> world" where
  "process_commits sv orgName repoName [] commitsData w = (commitsData, w)"
| "process_commits sv orgName repoName (commitSha # rest) commitsData w =
     (case getCommit sv (clock w) orgName repoName commitSha of
        Inr d \<Rightarrow>
          process_commits sv orgName repoName rest (commitsData @ [commit_record d]) (tick w)
      | Inl commitDetailError \<Rightarrow>
          process_commits sv orgName repoName rest commitsData
            (console_error (''Error fetching details for commit '' @ commitSha @ '' in repo '' @
                            repoName @ '':'') (tick w)))"

definition fetch_commits :: "services \<Rightarrow> string \<Rightarrow> string \<Rightarrow> world \<Rightarrow> commit list \<times> world" where
  "fetch_commits sv orgName repoName w =
     (case listCommits sv (clock w) orgName repoName of
        Inr commitSummaries \<Rightarrow> process_commits sv orgName repoName commitSummaries [] (tick w)
      | Inl commitError \<Rightarrow>
          ([], console_error (''Error fetching commits for repository '' @ repoName @ '':'')
                 (tick w)))"

text \<open>One round of the loop over \<^verbatim>\<open>topRepos\<close>: the \<^verbatim>\<open>repoData\<close> pushed.\<close>

definition process_repo :: "services \<Rightarrow> string \<Rightarrow> gh_repo \<Rightarrow> world \<Rightarrow> repo \<times> world" where
  "process_repo sv orgName r w =
     (case fetch_contributors sv orgName (gh_name r) w of
        (contributors, w1) \<Rightarrow>
          (case fetch_commits sv orgName (gh_name r) w1 of
             (commitsData, w2) \<Rightarrow>
               (\<lparr>name = gh_name r,
                 link = html_url r,
                 stars = stargazers_count r,
                 top50contributors = contributors,
                 commits = Some commitsData,
                 averageAdditions = Some (fst (computeAverages commitsData)),
                 averageDeletions = Some (snd (computeAverages commitsData))\<rparr>,
                w2)))"

fun process_repos ::
  "services \<Rightarrow> string \<Rightarrow> gh_repo list \<Rightarrow> repo list \<Rightarrow> world \<Rightarrow> repo list \<times> world" where
  "process_repos sv orgName [] results w = (results, w)"
| "process_repos sv orgName (r # rest) results w =
     (case process_repo sv orgName r w of
        (repoData, w') \<Rightarrow> process_repos sv orgName rest (results @ [repoData]) w')"

text \<open>
  The stage. Everything after the lookup runs inside the outer \<^verbatim>\<open>try\<close>; the listing of
  the organization's repositories has no handler of its own, so its failure is caught by
  the outer \<^verbatim>\<open>catch\<close>, which prints and ends the stage.
\<close>

definition scrape_main :: "services \<Rightarrow> int \<Rightarrow> world \<Rightarrow> world" where
  "scrape_main sv companyId w0 =
     (case db_select sv companyId w0 of
        (resp, w1) \<Rightarrow>
          if error resp \<noteq> None then console_error ''Error fetching company data:'' w1
          else
            (case data resp of
               None \<Rightarrow> console_error ''No company data found.'' w1
             | Some company \<Rightarrow>
                 (case resolveOrg (parseURL sv) (website company) of
                    Inl parseError \<Rightarrow> console_error ''Error parsing GitHub URL:'' w1
                  | Inr orgName \<Rightarrow>
                      (case listForOrg sv (clock w1) orgName of
                         Inl err \<Rightarrow> console_error ''Unexpected error:'' (tick w1)
                       | Inr repos \<Rightarrow>
                           (let sortedRepos = sort_key (\<lambda>r. - stargazers_count r) repos;
                                topRepos = take 1 sortedRepos
                            in case process_repos sv orgName topRepos [] (tick w1) of
                                 (results, w2) \<Rightarrow>
                                   (case db_update sv companyId (ScrapedData results) w2 of
                                      (updateError, w3) \<Rightarrow>
                                        if updateError \<noteq> None then
                                          console_error
                                            ''Error updating company record with scraped data:'' w3
                                        else w3))))))"

section \<open>The enrichment stage (\<^verbatim>\<open>updateNiceData.js\<close>)\<close>

text \<open>\<^verbatim>\<open>s.trim()\<close>, on the white space that fits a \<^typ>\<open>char\<close>.\<close>

definition is_space :: "char \<Rightarrow> bool" where
  "is_space c = (c \<in> set [CHR 0x09, CHR 0x0A, CHR 0x0B, CHR 0x0C, CHR 0x0D, CHR 0x20, CHR 0xA0])"

definition trim :: "string \<Rightarrow> string" where
  "trim s = rev (dropWhile is_space (rev (dropWhile is_space s)))"

abbreviation DQ :: char where
  "DQ \<equiv> CHR 0x22"

abbreviation SQ :: char where
  "SQ \<equiv> CHR 0x27"

text \<open>
  \<^verbatim>\<open>summarizeCommitMessage\<close>. The answer \<open>Inr None\<close> of the completion service is a
  response whose content is null: \<^verbatim>\<open>.trim()\<close> throws on it, inside the \<^verbatim>\<open>try\<close>.
\<close>

definition summarizeCommitMessage :: "services \<Rightarrow> string \<Rightarrow> world \<Rightarrow> string \<times> world" where
  "summarizeCommitMessage sv commitMessage w =
     (let prompt =
            ''Explain the following commit message in a few words (less than 20 words) '' @
            ''for a non-technical person. Include the fully summarized message, not just '' @
            ''the first few words. Also don'' @ [SQ] @ ''t include any filler words:'' @
            [NL, NL, DQ] @ commitMessage @ [DQ, NL, NL] @ ''Summary:''
      in case chat_completion sv (clock w) prompt of
           Inr (Some content) \<Rightarrow>
             ((if truthy (trim content) then trim content else ''No summary available.''), tick w)
         | Inr None \<Rightarrow>
             (''No summary available.'',
              console_error ''Error summarizing commit message:'' (tick w))
         | Inl err \<Rightarrow>
             (''No summary available.'',
              console_error ''Error summarizing commit message:'' (tick w)))"

definition summarizeCommitDiff :: "services \<Rightarrow> string \<Rightarrow> world \<Rightarrow> string \<times> world" where
  "summarizeCommitDiff sv d w =
     (let prompt =
            ''Summarize the following commit diff in simple, nontechnical language suitable '' @
            ''for a manager, highlighting the key improvements or changes:'' @
            [NL, NL] @ d @ [NL, NL] @ ''Summary:''
      in case chat_completion sv (clock w) prompt of
           Inr (Some content) \<Rightarrow>
             ((if truthy (trim content) then trim content else ''Summary not available.''), tick w)
         | Inr None \<Rightarrow>
             (''Summary not available.'', console_error ''Error summarizing diff:'' (tick w))
         | Inl err \<Rightarrow>
             (''Summary not available.'', console_error ''Error summarizing diff:'' (tick w)))"

text \<open>
  The body of the \<^verbatim>\<open>try\<close> of \<^verbatim>\<open>getTechnologiesForContributor\<close>: \<open>Inl\<close> is the error
  thrown in it. \<^verbatim>\<open>reposResponse.data\<close> is \<open>None\<close> when falsy; a repository is its name.
\<close>

definition technologies_prompt :: "string \<Rightarrow> string \<Rightarrow> string" where
  "technologies_prompt bioText repoInfo =
     ''Based on the following GitHub bio and repository information, list the technologies '' @
     ''this person appears proficient in. Return your answer as a comma-separated list.'' @
     [NL, NL] @ ''GitHub Bio: '' @ bioText @ [NL] @ ''Contributor Repository Info: '' @ repoInfo @
     [NL, NL] @ ''Technologies:''"

definition parse_technologies :: "string \<Rightarrow> string list" where
  "parse_technologies content = filter truthy (map trim (split_on CHR '','' (trim content)))"

definition technologies_try :: "services \<Rightarrow> string \<Rightarrow> world \<Rightarrow> (js_error + string list) \<times> world" where
  "technologies_try sv author_name w =
     (case getByUsername sv (clock w) author_name of
        Inl err \<Rightarrow> (Inl err, tick w)
      | Inr user \<Rightarrow>
          (let bioText = (case bio user of Some b \<Rightarrow> b | None \<Rightarrow> []);
               w1 = tick w
           in case listForUser sv (clock w1) author_name of
                Inl err \<Rightarrow> (Inl err, tick w1)
              | Inr reposData \<Rightarrow>
                  (let w2 = tick w1;
                       langs = (case reposData of
                                  Some (topRepo # others) \<Rightarrow>
                                    (case listLanguages sv (clock w2) author_name topRepo of
                                       Inl err \<Rightarrow> (Inl err, tick w2)
                                     | Inr languages \<Rightarrow>
                                         (Inr (''Repository: '' @ topRepo @ ''. Languages: '' @
                                               join '', '' languages @ ''.''), tick w2))
                                | _ \<Rightarrow> (Inr [], w2))
                   in case langs of
                        (Inl err, w3) \<Rightarrow> (Inl err, w3)
                      | (Inr repoInfo, w3) \<Rightarrow>
                          (case chat_completion sv (clock w3)
                                  (technologies_prompt bioText repoInfo) of
                             Inl err \<Rightarrow> (Inl err, tick w3)
                           | Inr None \<Rightarrow> (Inl (TypeError ''content is null''), tick w3)
                           | Inr (Some content) \<Rightarrow>
                               (Inr (parse_technologies content), tick w3)))))"

definition getTechnologiesForContributor :: "services \<Rightarrow> string \<Rightarrow> world \<Rightarrow> string list \<times> world" where
  "getTechnologiesForContributor sv author_name w =
     (case technologies_try sv author_name w of
        (Inr techs, w') \<Rightarrow> (techs, w')
      | (Inl err, w') \<Rightarrow>
          ([], console_error (''Error fetching technologies for '' @ author_name @ '':'') w'))"

text \<open>The loop over \<^verbatim>\<open>repo.commits\<close> (lines 217-228).\<close>

definition nice_commit_of :: "services \<Rightarrow> commit \<Rightarrow> world \<Rightarrow> nice_commit \<times> world" where
  "nice_commit_of sv c w =
     (case (if truthy (diff c) then summarizeCommitDiff sv (diff c) w
            else (''No diff available.'', w)) of
        (summ, w1) \<Rightarrow>
          (case (case message c of
                   Some m \<Rightarrow> if truthy m then summarizeCommitMessage sv m w1
                             else (''No message available.'', w1)
                 | None \<Rightarrow> (''No message available.'', w1)) of
             (msgSummary, w2) \<Rightarrow>
               (\<lparr>message_nc = message c, messageSummary = msgSummary, author_nc = author c,
                 summary = summ, stats_nc = stats c\<rparr>, w2)))"

fun nice_commits :: "services \<Rightarrow> commit list \<Rightarrow> nice_commit list \<Rightarrow> world \<Rightarrow> nice_commit list \<times> world" where
  "nice_commits sv [] acc w = (acc, w)"
| "nice_commits sv (c # cs) acc w =
     (case nice_commit_of sv c w of (nc, w') \<Rightarrow> nice_commits sv cs (acc @ [nc]) w')"

text \<open>\<^verbatim>\<open>new Set(xs)\<close>, iterated: the distinct elements in the order of their first occurrence.\<close>

fun set_add :: "'a list \<Rightarrow> 'a \<Rightarrow> 'a list" where
  "set_add s x = (if x \<in> set s then s else s @ [x])"

definition new_Set :: "'a list \<Rightarrow> 'a list" where
  "new_Set xs = foldl set_add [] xs"

text \<open>One round of the loop over \<^verbatim>\<open>uniqueAuthors\<close> (lines 234-254), with its \<^verbatim>\<open>try\<close>.\<close>

definition process_author :: "services \<Rightarrow> string \<Rightarrow> world \<Rightarrow> person \<times> world" where
  "process_author sv author_name w =
     (case getTechnologiesForContributor sv author_name w of
        (techList, w1) \<Rightarrow>
          (case getByUsername sv (clock w1) author_name of
             Inr user \<Rightarrow>
               (\<lparr>username = author_name,
                 name_p = Some (case profile_name user of
                                  Some n \<Rightarrow> if truthy n then n else author_name
                                | None \<Rightarrow> author_name),
                 technologies = techList\<rparr>,
                tick w1)
           | Inl err \<Rightarrow>
               (\<lparr>username = author_name, name_p = None, technologies = []\<rparr>,
                console_error (''Error processing contributor '' @ author_name @ '':'') (tick w1))))"

fun process_authors :: "services \<Rightarrow> string list \<Rightarrow> person list \<Rightarrow> world \<Rightarrow> person list \<times> world" where
  "process_authors sv [] ps w = (ps, w)"
| "process_authors sv (a # as) ps w =
     (case process_author sv a w of (p, w') \<Rightarrow> process_authors sv as (ps @ [p]) w')"

text \<open>
  One round of the loop over \<^verbatim>\<open>scrapedData\<close>. The commit loop is guarded by
  \<^verbatim>\<open>repo.commits && Array.isArray(repo.commits)\<close>; \<^verbatim>\<open>repo.commits.map\<close> after it is not, and
  throws a \<^verbatim>\<open>TypeError\<close> when the field is missing.
\<close>

definition nice_repo_of :: "services \<Rightarrow> repo \<Rightarrow> world \<Rightarrow> (js_error + nice_repo) \<times> world" where
  "nice_repo_of sv r w =
     (case (case commits r of
              Some cs \<Rightarrow> nice_commits sv cs [] w
            | None \<Rightarrow> ([], w)) of
        (ncs, w1) \<Rightarrow>
          (case commits r of
             None \<Rightarrow> (Inl (TypeError ''Cannot read properties of undefined (reading map)''), w1)
           | Some cs \<Rightarrow>
               (let uniqueAuthors = new_Set (map author cs)
                in case process_authors sv uniqueAuthors [] w1 of
                     (ps, w2) \<Rightarrow>
                       (Inr \<lparr>name_n = name r, link_n = link r, stars_n = stars r,
                             top50contributors_n = top50contributors r, commits_n = ncs,
                             averageAdditions_n = averageAdditions r,
                             averageDeletions_n = averageDeletions r, people = ps\<rparr>,
                        w2))))"

fun nice_repos ::
  "services \<Rightarrow> repo list \<Rightarrow> nice_repo list \<Rightarrow> world \<Rightarrow> (js_error + nice_repo list) \<times> world" where
  "nice_repos sv [] niceData w = (Inr niceData, w)"
| "nice_repos sv (r # rs) niceData w =
     (case nice_repo_of sv r w of
        (Inl err, w') \<Rightarrow> (Inl err, w')
      | (Inr newRepo, w') \<Rightarrow> nice_repos sv rs (niceData @ [newRepo]) w')"

text \<open>
  \<^verbatim>\<open>updateNiceData\<close> has no \<^verbatim>\<open>try\<close> of its own: the first component of the result is the
  error the call ends with, if any.
\<close>

definition updateNiceData :: "services \<Rightarrow> int \<Rightarrow> world \<Rightarrow> js_error option \<times> world" where
  "updateNiceData sv companyId w0 =
     (case db_select sv companyId w0 of
        (resp, w1) \<Rightarrow>
          (case (error resp, data resp) of
             (None, Some company) \<Rightarrow>
               (case scraped_data company of
                  None \<Rightarrow>
                    (None, console_error ''No scraped_data available in the company record.'' w1)
                | Some scrapedData \<Rightarrow>
                    (case nice_repos sv scrapedData [] w1 of
                       (Inl err, w2) \<Rightarrow> (Some err, w2)
                     | (Inr niceData, w2) \<Rightarrow>
                         (case db_update sv companyId (NiceData niceData) w2 of
                            (updateError, w3) \<Rightarrow>
                              (None,
                               if updateError \<noteq> None then
                                 console_error
                                   ''Error updating company record with nice_data:'' w3
                               else w3))))
           | _ \<Rightarrow> (None, console_error ''Error fetching company data:'' w1)))"

section \<open>The email stage (\<^verbatim>\<open>email.js\<close>)\<close>

text \<open>
  \<^verbatim>\<open>generateEmail\<close> has no \<^verbatim>\<open>try\<close>: a failure of the completion call is thrown to
  \<^verbatim>\<open>main\<close>. A null content gives the empty string (\<^verbatim>\<open>emailContent || ""\<close>).
\<close>

definition generateEmail :: "services \<Rightarrow> company \<Rightarrow> world \<Rightarrow> (js_error + string) \<times> world" where
  "generateEmail sv company w =
     (let dataSummary = fst (summarizeScrapedData_email (scraped_data company));
          manager = (case manager_name company of
                       Some m \<Rightarrow> if truthy m then m else ''[Manager Name]''
                     | None \<Rightarrow> ''[Manager Name]'');
          prompt = email_prompt sv (company_name company) manager dataSummary
      in case chat_completion sv (clock w) prompt of
           Inl err \<Rightarrow> (Inl err, tick w)
         | Inr None \<Rightarrow> (Inr [], tick w)
         | Inr (Some emailContent) \<Rightarrow> (Inr emailContent, tick w))"

definition email_main :: "services \<Rightarrow> int \<Rightarrow> world \<Rightarrow> world" where
  "email_main sv companyId w0 =
     (case db_select sv companyId w0 of
        (resp, w1) \<Rightarrow>
          if error resp \<noteq> None then console_error ''Error fetching company data:'' w1
          else
            (case data resp of
               None \<Rightarrow> console_error ''No company data found.'' w1
             | Some company \<Rightarrow>
                 (case generateEmail sv company w1 of
                    (Inl err, w2) \<Rightarrow> console_error ''Unexpected error:'' w2
                  | (Inr emailText, w2) \<Rightarrow>
                      (case db_update sv companyId (Email emailText) w2 of
                         (updateError, w3) \<Rightarrow>
                           if updateError \<noteq> None then
                             console_error
                               ''Error updating company record with generated email:'' w3
                           else w3))))"

section \<open>Notions used in the statements\<close>

text \<open>The stats of the commits that carry stats among the first three of a list.\<close>

definition window_stats :: "commit list \<Rightarrow> stats_t list" where
  "window_stats cs = List.map_filter stats (take 3 cs)"

text \<open>The heading and the blocks of the first three commits, numbered from 1.\<close>

definition commit_lines :: "commit list \<Rightarrow> string" where
  "commit_lines cs =
     commits_heading @ concat (map (\<lambda>(k, c). commit_block k c) (List.enumerate 0 (take 3 cs)))"

text \<open>
  The states in which the loop over \<^verbatim>\<open>uniqueAuthors\<close> looks the authors up, one per
  author: the first is the state the loop starts in, the next the one the round before
  has left.
\<close>

fun author_worlds :: "services \<Rightarrow> string list \<Rightarrow> world \<Rightarrow> world list" where
  "author_worlds sv [] w = []"
| "author_worlds sv (a # as) w = w # author_worlds sv as (snd (process_author sv a w))"

text \<open>
  For a repository with the commits \<open>cs\<close>, processed from the state \<open>w\<close>: the loop over the
  authors starts where the loop over the commits has ended.
\<close>

definition people_worlds :: "services \<Rightarrow> commit list \<Rightarrow> world \<Rightarrow> world list" where
  "people_worlds sv cs w =
     author_worlds sv (new_Set (map author cs)) (snd (nice_commits sv cs [] w))"

text \<open>The states in which the loop over \<^verbatim>\<open>scrapedData\<close> starts its rounds.\<close>

fun repo_worlds :: "services \<Rightarrow> repo list \<Rightarrow> world \<Rightarrow> world list" where
  "repo_worlds sv [] w = []"
| "repo_worlds sv (r # rs) w = w # repo_worlds sv rs (snd (nice_repo_of sv r w))"

text \<open>A stage step leaves the store alone: same rows, no update issued.\<close>

definition same_store :: "world \<Rightarrow> world \<Rightarrow> bool" where
  "same_store w w' = (rows w' = rows w \<and> updates w' = updates w)"

text \<open>A persisted repository whose commits all carry stats.\<close>

definition stats_present :: "repo \<Rightarrow> bool" where
  "stats_present r = (\<exists>cs. commits r = Some cs \<and> (\<forall>c \<in> set cs. stats c \<noteq> None))"

section \<open>Concrete inputs\<close>

definition mk_stats :: "int \<Rightarrow> int \<Rightarrow> stats_t" where
  "mk_stats a d = \<lparr>additions = a, deletions = d, total_stat = a + d\<rparr>"

definition sample_commit :: "string \<Rightarrow> string \<Rightarrow> stats_t option \<Rightarrow> commit" where
  "sample_commit who text st = \<lparr>message = Some ''update'', author = who, diff = text, stats = st\<rparr>"

definition three_commits :: "commit list" where
  "three_commits =
     [sample_commit ''ann'' ''File: a.js'' (Some (mk_stats 10 2)),
      sample_commit ''bob'' ''File: b.js'' (Some (mk_stats 20 4)),
      sample_commit ''ann'' ''File: c.js'' None]"

definition stale_repo :: repo where
  "stale_repo = \<lparr>name = ''core'', link = ''https://github.com/acme/core'', stars = 50,
     top50contributors = [''Ann Lee''], commits = Some three_commits,
     averageAdditions = Some 99, averageDeletions = Some 7\<rparr>"

definition small_repo :: repo where
  "small_repo = \<lparr>name = ''docs'', link = ''https://github.com/acme/docs'', stars = 10,
     top50contributors = [], commits = Some [],
     averageAdditions = Some 0, averageDeletions = Some 0\<rparr>"

definition four_commits :: "commit list" where
  "four_commits =
     [sample_commit ''ann'' ''File: a.js'' (Some (mk_stats 1 0)),
      sample_commit ''bob'' ''File: b.js'' (Some (mk_stats 2 0)),
      sample_commit ''ann'' ''File: c.js'' (Some (mk_stats 3 0)),
      sample_commit ''cy'' ''File: d.js'' (Some (mk_stats 4 0))]"

text \<open>
  A stand-in for the platform's URL parser on plain \<^verbatim>\<open>https://host/path\<close> strings (no
  query, no fragment, nothing to normalise): the path starts at the first slash after the
  host and is \<^verbatim>\<open>/\<close> when there is none.
\<close>

definition simple_parseURL :: "string \<Rightarrow> url option" where
  "simple_parseURL s =
     (if take 8 s = ''https://'' \<and> takeWhile (\<lambda>c. c \<noteq> CHR ''/'') (drop 8 s) \<noteq> [] then
        Some \<lparr>pathname = (case dropWhile (\<lambda>c. c \<noteq> CHR ''/'') (drop 8 s) of
                             [] \<Rightarrow> ''/''
                           | p # ps \<Rightarrow> p # ps)\<rparr>
      else None)"

definition elastic :: company where
  "elastic = \<lparr>company_id = 107, company_name = ''Elastic'',
     website = ''https://github.com/elastic/'', manager_name = None,
     scraped_data = None, nice_data = None, email = None\<rparr>"

definition demo_world :: world where
  "demo_world = \<lparr>clock = 0, rows = [107 \<mapsto> elastic], updates = [], errlog = []\<rparr>"

text \<open>The store answers; every other service is down.\<close>

definition down_services :: services where
  "down_services =
     \<lparr>parseURL = simple_parseURL,
      db_fault = (\<lambda>t. None),
      db_update_fault = (\<lambda>t. None),
      listForOrg = (\<lambda>t org. Inl (RequestError ''503'')),
      listContributors = (\<lambda>t owner rn. Inl (RequestError ''503'')),
      getByUsername = (\<lambda>t u. Inl (RequestError ''503'')),
      listCommits = (\<lambda>t owner rn. Inl (RequestError ''503'')),
      getCommit = (\<lambda>t owner rn ref. Inl (RequestError ''503'')),
      listForUser = (\<lambda>t u. Inl (RequestError ''503'')),
      listLanguages = (\<lambda>t owner rn. Inl (RequestError ''503'')),
      chat_completion = (\<lambda>t p. Inl (RequestError ''503'')),
      email_prompt = (\<lambda>company manager summary. summary)\<rparr>"

text \<open>
  The organization has two repositories; the listing of commits gives two, the detail of
  the first comes without stats, the detail of the second cannot be fetched.
\<close>

definition up_services :: services where
  "up_services =
     down_services
       \<lparr>listForOrg := (\<lambda>t org. Inr
           [\<lparr>gh_name = ''docs'', html_url = ''https://github.com/elastic/docs'',
              stargazers_count = 10\<rparr>,
            \<lparr>gh_name = ''core'', html_url = ''https://github.com/elastic/core'',
              stargazers_count = 50\<rparr>]),
        listContributors := (\<lambda>t owner rn. Inr [''ann'']),
        getByUsername := (\<lambda>t u. Inr \<lparr>profile_name = Some ''Ann Lee'', bio = None\<rparr>),
        listCommits := (\<lambda>t owner rn. Inr [''c1'', ''c2'']),
        getCommit := (\<lambda>t owner rn ref.
           if ref = ''c1'' then
             Inr \<lparr>author_login = Some ''ann'', commit_author_name = Some ''Ann'',
                  commit_message = ''fix'', files = Some [], detail_stats = None\<rparr>
           else Inl (RequestError ''404''))\<rparr>"

definition scraped_core :: repo where
  "scraped_core =
     \<lparr>name = ''core'', link = ''https://github.com/elastic/core'', stars = 50,
      top50contributors = [''Ann Lee''],
      commits = Some [\<lparr>message = Some ''fix'', author = ''ann'',
                       diff = ''No file changes found for this commit.'',
                       stats = Some \<lparr>additions = 0, deletions = 0, total_stat = 0\<rparr>\<rparr>],
      averageAdditions = Some 0, averageDeletions = Some 0\<rparr>"

definition four_author_repo :: repo where
  "four_author_repo = stale_repo\<lparr>commits := Some four_commits\<rparr>"

definition scraped_world :: world where
  "scraped_world =
     demo_world\<lparr>rows := [107 \<mapsto> elastic\<lparr>scraped_data := Some [four_author_repo]\<rparr>]\<rparr>"

text \<open>Profiles are served, nothing else of the code host is.\<close>

definition profile_services :: services where
  "profile_services =
     down_services
       \<lparr>getByUsername := (\<lambda>t u. Inr \<lparr>profile_name = Some ''Ann Lee'', bio = Some ''Rust''\<rparr>)\<rparr>"

text \<open>Profiles and repository lists are served, the languages are not.\<close>

definition repos_services :: services where
  "repos_services = profile_services\<lparr>listForUser := (\<lambda>t u. Inr (Some [''tool'']))\<rparr>"

text \<open>The code host is up, the generation service is down.\<close>

definition no_chat_services :: services where
  "no_chat_services = repos_services\<lparr>listLanguages := (\<lambda>t owner rn. Inr [''Rust'', ''C''])\<rparr>"

text \<open>Profiles are served, the user has no repository.\<close>

definition no_repos_services :: services where
  "no_repos_services = profile_services\<lparr>listForUser := (\<lambda>t u. Inr None)\<rparr>"

text \<open>Everything is up, the completion comes back with a null content.\<close>

definition null_chat_services :: services where
  "null_chat_services = no_chat_services\<lparr>chat_completion := (\<lambda>t p. Inr None)\<rparr>"

text \<open>
  Everything is up and the completion service answers \<^verbatim>\<open>Rust, C\<close>, but the profile of
  \<^verbatim>\<open>ann\<close> cannot be fetched.
\<close>

definition mixed_services :: services where
  "mixed_services =
     down_services
       \<lparr>getByUsername := (\<lambda>t u. if u = ''ann'' then Inl (RequestError ''404'')
                               else Inr \<lparr>profile_name = None, bio = None\<rparr>),
        listForUser := (\<lambda>t u. Inr (Some [])),
        chat_completion := (\<lambda>t p. Inr (Some ''Rust, C''))\<rparr>"

section \<open>Rounding\<close>

lemma round_quot_div:
  assumes "0 < n"
  shows "round_quot t n = (2 * t + int n) div (2 * int n)"
proof -
  have "real_of_int t / real n + 1 / 2 = real_of_int (2 * t + int n) / real_of_int (2 * int n)"
    using assms by (simp add: field_simps)
  then show ?thesis
    unfolding round_quot_def Math_round_def by (simp only: floor_divide_of_int_eq)
qed

lemma round_quot_nearest:
  assumes "0 < n"
  shows "2 * t - int n < 2 * int n * round_quot t n \<and> 2 * int n * round_quot t n \<le> 2 * t + int n"
proof -
  let ?d = "2 * int n"
  have d: "0 < ?d" using assms by simp
  have r: "round_quot t n = (2 * t + int n) div ?d" using assms by (rule round_quot_div)
  have "?d * ((2 * t + int n) div ?d) = (2 * t + int n) - (2 * t + int n) mod ?d"
    by (simp add: minus_mod_eq_mult_div [symmetric])
  moreover have "0 \<le> (2 * t + int n) mod ?d" "(2 * t + int n) mod ?d < ?d"
    using d by simp_all
  ultimately show ?thesis unfolding r by linarith
qed

section \<open>The metrics window\<close>

lemma foldl_add_stats:
  "foldl add_stats (a, d, n) xs =
     (a + sum_list (map additions (List.map_filter stats xs)),
      d + sum_list (map deletions (List.map_filter stats xs)),
      n + length (List.map_filter stats xs))"
  by (induction xs arbitrary: a d n) (auto simp: List.map_filter_simps split: option.splits)

lemma top3_totals_window:
  "top3_totals cs =
     (sum_list (map additions (window_stats cs)),
      sum_list (map deletions (window_stats cs)),
      length (window_stats cs))"
  by (simp add: top3_totals_def window_stats_def foldl_add_stats)

text \<open>
  C1. The averages are taken over the commits with stats among the first three of the
  list: each is the quotient of the sum by their number, rounded to the nearest integer;
  a commit without stats adds to neither the sum nor the count; with no such commit the
  result is \<open>(0, 0)\<close>, nothing being divided. For stats (+10,-2), (+20,-4) and a commit
  without stats the result is \<open>(15, 3)\<close>.
\<close>

theorem computeAverages_window:
  "computeAverages cs =
     (if window_stats cs = [] then (0, 0)
      else (round_quot (sum_list (map additions (window_stats cs))) (length (window_stats cs)),
            round_quot (sum_list (map deletions (window_stats cs))) (length (window_stats cs))))
   \<and> (window_stats cs \<noteq> [] \<longrightarrow>
        2 * sum_list (map additions (window_stats cs)) - int (length (window_stats cs))
          < 2 * int (length (window_stats cs)) * fst (computeAverages cs)
      \<and> 2 * int (length (window_stats cs)) * fst (computeAverages cs)
          \<le> 2 * sum_list (map additions (window_stats cs)) + int (length (window_stats cs))
      \<and> 2 * sum_list (map deletions (window_stats cs)) - int (length (window_stats cs))
          < 2 * int (length (window_stats cs)) * snd (computeAverages cs)
      \<and> 2 * int (length (window_stats cs)) * snd (computeAverages cs)
          \<le> 2 * sum_list (map deletions (window_stats cs)) + int (length (window_stats cs)))
   \<and> computeAverages
         [c1\<lparr>stats := Some \<lparr>additions = 10, deletions = 2, total_stat = t1\<rparr>\<rparr>,
          c2\<lparr>stats := Some \<lparr>additions = 20, deletions = 4, total_stat = t2\<rparr>\<rparr>,
          c3\<lparr>stats := None\<rparr>] = (15, 3)
   \<and> computeAverages [] = (0, 0)"
proof -
  let ?q = "window_stats cs"
  have eq: "computeAverages cs =
     (if ?q = [] then (0, 0)
      else (round_quot (sum_list (map additions ?q)) (length ?q),
            round_quot (sum_list (map deletions ?q)) (length ?q)))"
    by (simp add: computeAverages_def top3_totals_window)
  have near: "?q \<noteq> [] \<longrightarrow>
        2 * sum_list (map additions ?q) - int (length ?q)
          < 2 * int (length ?q) * fst (computeAverages cs)
      \<and> 2 * int (length ?q) * fst (computeAverages cs)
          \<le> 2 * sum_list (map additions ?q) + int (length ?q)
      \<and> 2 * sum_list (map deletions ?q) - int (length ?q)
          < 2 * int (length ?q) * snd (computeAverages cs)
      \<and> 2 * int (length ?q) * snd (computeAverages cs)
          \<le> 2 * sum_list (map deletions ?q) + int (length ?q)"
  proof
    assume ne: "?q \<noteq> []"
    then have pos: "0 < length ?q" by simp
    have f: "fst (computeAverages cs) = round_quot (sum_list (map additions ?q)) (length ?q)"
      and s: "snd (computeAverages cs) = round_quot (sum_list (map deletions ?q)) (length ?q)"
      using ne by (simp_all add: eq)
    show "2 * sum_list (map additions ?q) - int (length ?q)
          < 2 * int (length ?q) * fst (computeAverages cs)
      \<and> 2 * int (length ?q) * fst (computeAverages cs)
          \<le> 2 * sum_list (map additions ?q) + int (length ?q)
      \<and> 2 * sum_list (map deletions ?q) - int (length ?q)
          < 2 * int (length ?q) * snd (computeAverages cs)
      \<and> 2 * int (length ?q) * snd (computeAverages cs)
          \<le> 2 * sum_list (map deletions ?q) + int (length ?q)"
      unfolding f s using round_quot_nearest [OF pos] by blast
  qed
  have ex: "computeAverages
         [c1\<lparr>stats := Some \<lparr>additions = 10, deletions = 2, total_stat = t1\<rparr>\<rparr>,
          c2\<lparr>stats := Some \<lparr>additions = 20, deletions = 4, total_stat = t2\<rparr>\<rparr>,
          c3\<lparr>stats := None\<rparr>] = (15, 3)"
    by (simp add: computeAverages_def top3_totals_def round_quot_div)
  have zero: "computeAverages [] = (0, 0)"
    by (simp add: computeAverages_def top3_totals_def)
  from eq near ex zero show ?thesis by blast
qed

theorem computeAverages_window_witness:
  "window_stats three_commits \<noteq> []
   \<and> window_stats three_commits = [mk_stats 10 2, mk_stats 20 4]
   \<and> computeAverages three_commits = (15, 3)
   \<and> 2 * sum_list (map additions (window_stats three_commits))
         - int (length (window_stats three_commits))
       < 2 * int (length (window_stats three_commits)) * fst (computeAverages three_commits)
   \<and> 2 * int (length (window_stats three_commits)) * snd (computeAverages three_commits)
       \<le> 2 * sum_list (map deletions (window_stats three_commits))
         + int (length (window_stats three_commits))"
proof -
  have w: "window_stats three_commits = [mk_stats 10 2, mk_stats 20 4]"
    by (simp add: window_stats_def three_commits_def sample_commit_def List.map_filter_simps)
  then have ne: "window_stats three_commits \<noteq> []" by simp
  have v: "computeAverages three_commits = (15, 3)"
    using computeAverages_window [of three_commits] ne
    by (simp add: w mk_stats_def round_quot_div)
  from computeAverages_window [of three_commits] ne w v show ?thesis by blast
qed

section \<open>The diff text\<close>

lemma join_blocks: "join sep (x # xs) = x @ concat (map (\<lambda>y. sep @ y) xs)"
  by (induction xs arbitrary: x) simp_all

text \<open>
  C7. With at least one changed file the diff text is the files' blocks in order, a
  newline between consecutive blocks (each block ends in a newline, so the blocks are a
  blank line apart); a file with a (non-empty) patch gives \<open>File: <filename>\n<patch>\n\<close>,
  a file without one (or with an empty one, which the test \<^verbatim>\<open>if (file.patch)\<close> takes for
  none) gives \<open>File: <filename> (no patch available)\n\<close>; with no changed file the text is
  the sentinel.
\<close>

theorem diffText_blocks:
  "diffText (Some (f # fs)) = render_file f @ concat (map (\<lambda>g. [NL] @ render_file g) fs)
   \<and> render_file \<lparr>filename = fname, patch = Some (ch # p)\<rparr>
        = ''File: '' @ fname @ [NL] @ (ch # p) @ [NL]
   \<and> render_file \<lparr>filename = fname, patch = None\<rparr>
        = ''File: '' @ fname @ '' (no patch available)'' @ [NL]
   \<and> render_file \<lparr>filename = fname, patch = Some []\<rparr>
        = ''File: '' @ fname @ '' (no patch available)'' @ [NL]
   \<and> diffText (Some []) = ''No file changes found for this commit.''
   \<and> diffText (Some [\<lparr>filename = ''a.js'', patch = Some ''@@ -1 +1 @@''\<rparr>,
                     \<lparr>filename = ''b.png'', patch = None\<rparr>])
        = ''File: a.js'' @ [NL] @ ''@@ -1 +1 @@'' @ [NL] @ [NL] @
          ''File: b.png (no patch available)'' @ [NL]"
proof (intro conjI)
  show "diffText (Some (f # fs)) = render_file f @ concat (map (\<lambda>g. [NL] @ render_file g) fs)"
    by (simp add: diffText_def join_blocks comp_def)
qed (simp_all add: diffText_def render_file_def no_patch_block_def truthy_def)

section \<open>The digest\<close>

lemma forEach_commit_eq:
  "forEach_commit i cs (s, a) =
     (s @ concat (map (\<lambda>(k, c). commit_block k c) (List.enumerate i cs)), foldl add_stats a cs)"
  by (induction cs arbitrary: i s a) simp_all

lemma forEach_commit_email_eq:
  "forEach_commit_email i cs s =
     s @ concat (map (\<lambda>(k, c). commit_block k c) (List.enumerate i cs))"
  by (induction cs arbitrary: i s) simp_all

lemma commits_section_eq:
  assumes "commits r = Some cs" "cs \<noteq> []"
  shows "commits_section r =
     commit_lines cs @
     (if window_stats cs = [] then []
      else average_line
             (round_quot (sum_list (map additions (window_stats cs))) (length (window_stats cs)))
             (round_quot (sum_list (map deletions (window_stats cs))) (length (window_stats cs))))"
  using assms
  by (simp add: commits_section_def forEach_commit_eq commit_lines_def Let_def
      foldl_add_stats window_stats_def)

lemma commits_section_email_eq:
  assumes "commits r = Some cs" "cs \<noteq> []"
  shows "commits_section_email r = commit_lines cs"
  using assms
  by (simp add: commits_section_email_def forEach_commit_email_eq commit_lines_def)

lemma sort_by_stars_top:
  assumes "rs \<noteq> []"
  shows "hd (sort_by_stars rs) \<in> set rs
       \<and> (\<forall>r \<in> set rs. stars r \<le> stars (hd (sort_by_stars rs)))"
proof -
  let ?s = "sort_by_stars rs"
  have "length ?s = length rs" by (simp add: sort_by_stars_def)
  then have ne: "?s \<noteq> []" using assms by auto
  then obtain t ts where s: "?s = t # ts" by (cases ?s) auto
  have "set ?s = set rs" by (simp add: sort_by_stars_def)
  moreover have "sorted (map (\<lambda>r. - stars r) ?s)" by (simp add: sort_by_stars_def)
  ultimately show ?thesis unfolding s by auto
qed

lemma sort_by_stars_single: "sort_by_stars [r] = [r]"
  by (simp add: sort_by_stars_def)

lemma summarize_nonempty:
  "rs \<noteq> [] \<Longrightarrow> fst (summarizeScrapedData (Some rs)) =
     header (hd (sort_by_stars rs)) @ commits_section (hd (sort_by_stars rs))"
  by (simp add: summarizeScrapedData_def Let_def)

lemma summarize_email_nonempty:
  "rs \<noteq> [] \<Longrightarrow> fst (summarizeScrapedData_email (Some rs)) =
     header (hd (sort_by_stars rs)) @ commits_section_email (hd (sort_by_stars rs))
       @ averages_email (hd (sort_by_stars rs))"
  by (simp add: summarizeScrapedData_email_def Let_def)

lemma window_nonempty: "window_stats cs \<noteq> [] \<Longrightarrow> cs \<noteq> []"
  by (auto simp: window_stats_def List.map_filter_simps)

lemma window_three: "window_stats three_commits = [mk_stats 10 2, mk_stats 20 4]"
  by (simp add: window_stats_def three_commits_def sample_commit_def List.map_filter_simps)

text \<open>
  C5. For a missing, non-array or empty argument the summarizer of \<^verbatim>\<open>scrape.js\<close> returns
  exactly \<open>No repository data available.\<close> For one repository with five commits it
  returns the header, the heading, and the blocks of the first three commits in their
  order, each \<open>Commit <i> by <author>:\<close>, a newline, the first 200 characters of the diff
  with every newline turned into a space, then \<open>...\<close> and a blank line; the fourth and
  fifth commit do not appear. (The line of averages follows when one of the three has
  stats.) An excerpt has at most 200 characters and no newline.
\<close>

theorem summarize_first_three:
  "fst (summarizeScrapedData None) = ''No repository data available.''
   \<and> fst (summarizeScrapedData (Some [])) = ''No repository data available.''
   \<and> fst (summarizeScrapedData (Some [r\<lparr>commits := Some [c1, c2, c3, c4, c5]\<rparr>])) =
       header r @ ''Top 3 Recent Commits:'' @ [NL] @
       ''Commit 1 by '' @ author c1 @ '':'' @ [NL] @
         map (\<lambda>ch. if ch = NL then CHR '' '' else ch) (take 200 (diff c1)) @ ''...'' @ [NL, NL] @
       ''Commit 2 by '' @ author c2 @ '':'' @ [NL] @
         map (\<lambda>ch. if ch = NL then CHR '' '' else ch) (take 200 (diff c2)) @ ''...'' @ [NL, NL] @
       ''Commit 3 by '' @ author c3 @ '':'' @ [NL] @
         map (\<lambda>ch. if ch = NL then CHR '' '' else ch) (take 200 (diff c3)) @ ''...'' @ [NL, NL] @
       (if window_stats [c1, c2, c3] = [] then []
        else average_line
           (round_quot (sum_list (map additions (window_stats [c1, c2, c3])))
                       (length (window_stats [c1, c2, c3])))
           (round_quot (sum_list (map deletions (window_stats [c1, c2, c3])))
                       (length (window_stats [c1, c2, c3]))))
   \<and> length (replace_newlines (take 200 d)) \<le> 200
   \<and> NL \<notin> set (replace_newlines (take 200 d))"
proof (intro conjI)
  let ?r = "r\<lparr>commits := Some [c1, c2, c3, c4, c5]\<rparr>"
  have c: "commits ?r = Some [c1, c2, c3, c4, c5]" by simp
  have ne: "[c1, c2, c3, c4, c5] \<noteq> []" by simp
  have w: "window_stats [c1, c2, c3, c4, c5] = window_stats [c1, c2, c3]"
    by (simp add: window_stats_def)
  have h: "header ?r = header r" by (simp add: header_def)
  have l: "commit_lines [c1, c2, c3, c4, c5] =
       ''Top 3 Recent Commits:'' @ [NL] @
       ''Commit 1 by '' @ author c1 @ '':'' @ [NL] @
         map (\<lambda>ch. if ch = NL then CHR '' '' else ch) (take 200 (diff c1)) @ ''...'' @ [NL, NL] @
       ''Commit 2 by '' @ author c2 @ '':'' @ [NL] @
         map (\<lambda>ch. if ch = NL then CHR '' '' else ch) (take 200 (diff c2)) @ ''...'' @ [NL, NL] @
       ''Commit 3 by '' @ author c3 @ '':'' @ [NL] @
         map (\<lambda>ch. if ch = NL then CHR '' '' else ch) (take 200 (diff c3)) @ ''...'' @ [NL, NL]"
    by (simp add: commit_lines_def commits_heading_def commit_block_def replace_newlines_def
        num_to_string_def nat_to_string.simps digit_char_def eval_nat_numeral)
  show "fst (summarizeScrapedData (Some [?r])) =
       header r @ ''Top 3 Recent Commits:'' @ [NL] @
       ''Commit 1 by '' @ author c1 @ '':'' @ [NL] @
         map (\<lambda>ch. if ch = NL then CHR '' '' else ch) (take 200 (diff c1)) @ ''...'' @ [NL, NL] @
       ''Commit 2 by '' @ author c2 @ '':'' @ [NL] @
         map (\<lambda>ch. if ch = NL then CHR '' '' else ch) (take 200 (diff c2)) @ ''...'' @ [NL, NL] @
       ''Commit 3 by '' @ author c3 @ '':'' @ [NL] @
         map (\<lambda>ch. if ch = NL then CHR '' '' else ch) (take 200 (diff c3)) @ ''...'' @ [NL, NL] @
       (if window_stats [c1, c2, c3] = [] then []
        else average_line
           (round_quot (sum_list (map additions (window_stats [c1, c2, c3])))
                       (length (window_stats [c1, c2, c3])))
           (round_quot (sum_list (map deletions (window_stats [c1, c2, c3])))
                       (length (window_stats [c1, c2, c3]))))"
    unfolding summarize_nonempty [of "[?r]", simplified] sort_by_stars_single list.sel
      commits_section_eq [OF c ne] w h l
    by simp
qed (auto simp: summarizeScrapedData_def replace_newlines_def)

text \<open>
  C3, in the form that holds of the code. Let the sequence be non-empty, let the top repository (the first of the
  stable descending sort, a repository of the sequence with the most stars) have the commits
  \<open>cs\<close>, and let one of the first three of them carry stats. Then the summarizer of
  \<^verbatim>\<open>scrape.js\<close> ends with the line of averages, the additions and deletions being the
  rounded averages over the commits with stats among those three, whatever the
  repository's own fields hold. The summarizer of \<^verbatim>\<open>email.js\<close>, the one the email stage
  calls, ends instead with the line made of the repository's stored \<open>averageAdditions\<close> and
  \<open>averageDeletions\<close> when both are defined, and with no such line otherwise.
\<close>

theorem summarize_average_line:
  assumes "rs \<noteq> []"
    and "commits (hd (sort_by_stars rs)) = Some cs"
    and "window_stats cs \<noteq> []"
  shows "hd (sort_by_stars rs) \<in> set rs
    \<and> (\<forall>r \<in> set rs. stars r \<le> stars (hd (sort_by_stars rs)))
    \<and> fst (summarizeScrapedData (Some rs)) =
        header (hd (sort_by_stars rs)) @ commit_lines cs @
        average_line
          (round_quot (sum_list (map additions (window_stats cs))) (length (window_stats cs)))
          (round_quot (sum_list (map deletions (window_stats cs))) (length (window_stats cs)))
    \<and> fst (summarizeScrapedData_email (Some rs)) =
        header (hd (sort_by_stars rs)) @ commit_lines cs @
        (case (averageAdditions (hd (sort_by_stars rs)),
               averageDeletions (hd (sort_by_stars rs))) of
           (Some a, Some d) \<Rightarrow> average_line a d
         | _ \<Rightarrow> [])"
proof -
  have ne: "cs \<noteq> []" using assms(3) by (rule window_nonempty)
  show ?thesis
    using sort_by_stars_top [OF assms(1)]
    by (simp add: summarize_nonempty [OF assms(1)] summarize_email_nonempty [OF assms(1)]
        commits_section_eq [OF assms(2) ne] commits_section_email_eq [OF assms(2) ne]
        assms(3) averages_email_def)
qed

theorem summarize_average_line_witness:
  "[stale_repo] \<noteq> []
   \<and> commits (hd (sort_by_stars [stale_repo])) = Some three_commits
   \<and> window_stats three_commits \<noteq> []
   \<and> fst (summarizeScrapedData (Some [stale_repo])) =
        header stale_repo @ commit_lines three_commits @ average_line 15 3
   \<and> fst (summarizeScrapedData_email (Some [stale_repo])) =
        header stale_repo @ commit_lines three_commits @ average_line 99 7"
proof -
  have a: "[stale_repo] \<noteq> []" by simp
  have b: "commits (hd (sort_by_stars [stale_repo])) = Some three_commits"
    by (simp add: sort_by_stars_single stale_repo_def)
  have c: "window_stats three_commits \<noteq> []" by (simp add: window_three)
  have av: "averageAdditions stale_repo = Some 99" "averageDeletions stale_repo = Some 7"
    by (simp_all add: stale_repo_def)
  show ?thesis
    using summarize_average_line [OF a b c] a b c
    by (simp add: sort_by_stars_single window_three mk_stats_def round_quot_div av)
qed

text \<open>
  C3 as the specification words it fails for the summarizer of \<^verbatim>\<open>email.js\<close>: the commits of the
  repository average to \<open>(15, 3)\<close>, its stored fields hold 99 and 7, and the line printed is
  the one of 99 and 7.
\<close>

theorem summarize_email_counterexample:
  "fst (summarizeScrapedData_email (Some [stale_repo])) =
      header stale_repo @ commit_lines three_commits @ average_line 99 7
   \<and> computeAverages three_commits = (15, 3)
   \<and> average_line 99 7 \<noteq> average_line 15 3"
proof (intro conjI)
  have ne: "three_commits \<noteq> []" by (simp add: three_commits_def)
  have c: "commits stale_repo = Some three_commits" by (simp add: stale_repo_def)
  have av: "averages_email stale_repo = average_line 99 7"
    by (simp add: averages_email_def stale_repo_def)
  show "fst (summarizeScrapedData_email (Some [stale_repo])) =
      header stale_repo @ commit_lines three_commits @ average_line 99 7"
    by (simp add: summarize_email_nonempty sort_by_stars_single
        commits_section_email_eq [OF c ne] av)
  show "computeAverages three_commits = (15, 3)"
    by (simp add: computeAverages_def top3_totals_window window_three mk_stats_def round_quot_div)
  show "average_line 99 7 \<noteq> average_line 15 3"
    by (simp add: average_line_def num_to_string_def nat_to_string.simps digit_char_def)
qed

text \<open>
  C4, in the form that holds of the code. The summarizer (of \<^verbatim>\<open>scrape.js\<close> and of \<^verbatim>\<open>email.js\<close> alike) sorts the
  array it is given, in place: after the call the array holds the same repositories, each
  as it was, in descending order of stars, repositories with equal stars keeping their
  order. The array is as before exactly when it already was in descending order of stars;
  a missing argument stays missing.
\<close>

theorem summarize_sorts_in_place:
  "snd (summarizeScrapedData None) = None
   \<and> snd (summarizeScrapedData (Some rs)) = Some (sort_by_stars rs)
   \<and> snd (summarizeScrapedData_email (Some rs)) = Some (sort_by_stars rs)
   \<and> mset (sort_by_stars rs) = mset rs
   \<and> sorted (map (\<lambda>r. - stars r) (sort_by_stars rs))
   \<and> filter (\<lambda>r. stars r = k) (sort_by_stars rs) = filter (\<lambda>r. stars r = k) rs
   \<and> ((sort_by_stars rs = rs) = sorted (map (\<lambda>r. - stars r) rs))"
proof (intro conjI)
  show "filter (\<lambda>r. stars r = k) (sort_by_stars rs) = filter (\<lambda>r. stars r = k) rs"
    using sort_key_stable [of "\<lambda>r. - stars r" "- k" rs] by (simp add: sort_by_stars_def)
  show "(sort_by_stars rs = rs) = sorted (map (\<lambda>r. - stars r) rs)"
    by (metis sort_by_stars_def sort_key_id_if_sorted sorted_sort_key)
  show "snd (summarizeScrapedData (Some rs)) = Some (sort_by_stars rs)"
    by (cases rs) (simp_all add: summarizeScrapedData_def sort_by_stars_def Let_def)
  show "snd (summarizeScrapedData_email (Some rs)) = Some (sort_by_stars rs)"
    by (cases rs) (simp_all add: summarizeScrapedData_email_def sort_by_stars_def Let_def)
qed (simp_all add: summarizeScrapedData_def sort_by_stars_def)

text \<open>
  C4 as the specification words it fails: given a repository of 10 stars followed by one of 50,
  the call leaves the array with the one of 50 first.
\<close>

theorem summarize_reorders_counterexample:
  "snd (summarizeScrapedData (Some [small_repo, stale_repo])) = Some [stale_repo, small_repo]
   \<and> [stale_repo, small_repo] \<noteq> [small_repo, stale_repo]"
  by (simp add: summarizeScrapedData_def sort_by_stars_def Let_def small_repo_def stale_repo_def)


section \<open>The organization identifier\<close>

lemma split_on_not_Nil: "split_on c xs \<noteq> []"
  by (induction xs) (auto split: list.splits)

lemma split_on_no_sep: "c \<notin> set xs \<Longrightarrow> split_on c xs = [xs]"
  by (induction xs) auto

lemma split_on_sep: "c \<notin> set xs \<Longrightarrow> split_on c (xs @ c # ys) = xs # split_on c ys"
  by (induction xs) auto

lemma split_on_replicate: "split_on c (replicate k c @ ys) = replicate k [] @ split_on c ys"
  by (induction k) auto

text \<open>Splitting loses nothing: joining the pieces with the separator gives the string back.\<close>

lemma join_split_on: "join [c] (split_on c xs) = xs"
proof (induction xs)
  case Nil
  then show ?case by simp
next
  case (Cons x xs)
  obtain p ps where s: "split_on c xs = p # ps"
    using split_on_not_Nil [of c xs] by (cases "split_on c xs") auto
  with Cons show ?case by (cases ps) auto
qed

lemma filter_truthy_replicate: "filter truthy (replicate k [] @ ys) = filter truthy ys"
  by (induction k) (auto simp: truthy_def)

lemma segments_org:
  assumes "org \<noteq> []" "CHR ''/'' \<notin> set org"
  shows "(\<exists>ps. filter truthy (split_on CHR ''/'' (replicate k CHR ''/'' @ org)) = org # ps)
       \<and> (\<exists>ps. filter truthy
                  (split_on CHR ''/'' (replicate k CHR ''/'' @ org @ CHR ''/'' # extra)) = org # ps)"
  using assms
  by (simp add: split_on_replicate filter_truthy_replicate split_on_no_sep split_on_sep truthy_def)

lemma segments_empty_iff: "(filter truthy (split_on c xs) = []) = (set xs \<subseteq> {c})"
proof (induction xs)
  case Nil
  then show ?case by (simp add: truthy_def)
next
  case (Cons x xs)
  obtain p ps where s: "split_on c xs = p # ps"
    using split_on_not_Nil [of c xs] by (cases "split_on c xs") auto
  show ?case
  proof (cases "x = c")
    case True
    with Cons show ?thesis by (simp add: truthy_def)
  next
    case False
    then show ?thesis by (simp add: s truthy_def)
  qed
qed

text \<open>
  C6. Let the platform parse the URL to the path \<open>/org\<close> or \<open>/org/extra...\<close>, with any
  number of slashes before \<open>org\<close>, \<open>org\<close> not empty and without a slash: the resolver
  returns exactly \<open>org\<close> (empty pieces from leading, doubled or trailing slashes are
  dropped). It fails exactly when the URL does not parse or the path has no non-empty
  piece, that is, consists of slashes only. The resolver is a function of the string and
  the parser alone: it calls no service.
\<close>

theorem resolveOrg_first_segment:
  "(parse site = Some u \<and> org \<noteq> [] \<and> CHR ''/'' \<notin> set org
      \<and> (pathname u = replicate k CHR ''/'' @ org
          \<or> pathname u = replicate k CHR ''/'' @ org @ CHR ''/'' # extra)
     \<longrightarrow> resolveOrg parse site = Inr org)
   \<and> (isl (resolveOrg parse site) =
        (parse site = None
         \<or> (\<exists>u. parse site = Some u \<and> set (pathname u) \<subseteq> {CHR ''/''})))"
proof (intro conjI impI)
  assume a: "parse site = Some u \<and> org \<noteq> [] \<and> CHR ''/'' \<notin> set org
      \<and> (pathname u = replicate k CHR ''/'' @ org
          \<or> pathname u = replicate k CHR ''/'' @ org @ CHR ''/'' # extra)"
  then have o: "org \<noteq> []" "CHR ''/'' \<notin> set org" by simp_all
  from a segments_org [OF o, of k extra]
  obtain ps where "filter truthy (split_on CHR ''/'' (pathname u)) = org # ps"
    by metis
  with a show "resolveOrg parse site = Inr org"
    by (simp add: resolveOrg_def)
next
  show "isl (resolveOrg parse site) =
        (parse site = None
         \<or> (\<exists>u. parse site = Some u \<and> set (pathname u) \<subseteq> {CHR ''/''}))"
  proof (cases "parse site")
    case None
    then show ?thesis by (simp add: resolveOrg_def)
  next
    case (Some u)
    show ?thesis
      using segments_empty_iff [of "CHR ''/''" "pathname u"]
      by (cases "filter truthy (split_on CHR ''/'' (pathname u))")
         (simp_all add: resolveOrg_def Some)
  qed
qed

lemma parse_elastic:
  "simple_parseURL ''https://github.com/elastic/'' = Some \<lparr>pathname = ''/elastic/''\<rparr>"
  by (simp add: simple_parseURL_def)

lemma resolve_elastic: "resolveOrg simple_parseURL ''https://github.com/elastic/'' = Inr ''elastic''"
  by (simp add: resolveOrg_def parse_elastic truthy_def)

theorem resolveOrg_first_segment_witness:
  "simple_parseURL ''https://github.com/elastic/'' = Some \<lparr>pathname = ''/elastic/''\<rparr>
   \<and> ''/elastic/'' = replicate 1 CHR ''/'' @ ''elastic'' @ CHR ''/'' # []
   \<and> resolveOrg simple_parseURL ''https://github.com/elastic/'' = Inr ''elastic''
   \<and> simple_parseURL ''https://github.com'' = Some \<lparr>pathname = ''/''\<rparr>
   \<and> isl (resolveOrg simple_parseURL ''https://github.com'')
   \<and> simple_parseURL ''github'' = None
   \<and> isl (resolveOrg simple_parseURL ''github'')"
proof -
  have p: "simple_parseURL ''https://github.com/elastic/'' = Some \<lparr>pathname = ''/elastic/''\<rparr>"
    by (rule parse_elastic)
  have s: "''/elastic/'' = replicate 1 CHR ''/'' @ ''elastic'' @ CHR ''/'' # []" by simp
  have r: "resolveOrg simple_parseURL ''https://github.com/elastic/'' = Inr ''elastic''"
    using resolveOrg_first_segment
      [of simple_parseURL "''https://github.com/elastic/''" "\<lparr>pathname = ''/elastic/''\<rparr>"
          "''elastic''" 1 "[]"] p
    by simp
  have q: "simple_parseURL ''https://github.com'' = Some \<lparr>pathname = ''/''\<rparr>"
    by (simp add: simple_parseURL_def)
  have e: "isl (resolveOrg simple_parseURL ''https://github.com'')"
    using resolveOrg_first_segment [of simple_parseURL "''https://github.com''"] q by simp
  have n: "simple_parseURL ''github'' = None" by (simp add: simple_parseURL_def)
  have f: "isl (resolveOrg simple_parseURL ''github'')"
    using resolveOrg_first_segment [of simple_parseURL "''github''"] n by simp
  from p s r q e n f show ?thesis by blast
qed

section \<open>What a stage does to the store\<close>

lemma same_store_refl [simp]: "same_store w w"
  by (simp add: same_store_def)

lemma same_store_tick [simp]: "same_store w (tick w') = same_store w w'"
  by (simp add: same_store_def tick_def)

lemma same_store_console_error [simp]: "same_store w (console_error m w') = same_store w w'"
  by (simp add: same_store_def console_error_def)

lemma same_store_tick_left [simp]: "same_store (tick w) w' = same_store w w'"
  by (simp add: same_store_def tick_def)

lemma same_store_console_error_left [simp]:
  "same_store (console_error m w) w' = same_store w w'"
  by (simp add: same_store_def console_error_def)

lemma same_store_trans: "same_store a b \<Longrightarrow> same_store b c \<Longrightarrow> same_store a c"
  by (simp add: same_store_def)

lemma contributor_name_store: "contributor_name sv l w = (n, w') \<Longrightarrow> same_store w w'"
  by (auto simp: contributor_name_def split: sum.splits option.splits)

lemma contributor_names_store: "contributor_names sv ls w = (ns, w') \<Longrightarrow> same_store w w'"
proof (induction ls arbitrary: w ns w')
  case Nil
  then show ?case by simp
next
  case (Cons l ls)
  then show ?case
    by (auto split: prod.splits dest!: contributor_name_store intro: same_store_trans)
qed

lemma fetch_contributors_store: "fetch_contributors sv org rn w = (cs, w') \<Longrightarrow> same_store w w'"
  by (auto simp: fetch_contributors_def split: sum.splits dest!: contributor_names_store)

lemma process_commits_store:
  "process_commits sv org rn shas acc w = (cs, w') \<Longrightarrow> same_store w w'"
proof (induction shas arbitrary: acc w)
  case Nil
  then show ?case by simp
next
  case (Cons s shas)
  then show ?case
    by (auto split: sum.splits dest!: Cons.IH)
qed

lemma fetch_commits_store: "fetch_commits sv org rn w = (cs, w') \<Longrightarrow> same_store w w'"
  by (auto simp: fetch_commits_def split: sum.splits dest!: process_commits_store)

lemma process_repo_store: "process_repo sv org r w = (rd, w') \<Longrightarrow> same_store w w'"
  by (auto simp: process_repo_def split: prod.splits
      dest!: fetch_contributors_store fetch_commits_store intro: same_store_trans)

lemma process_repos_store: "process_repos sv org rs acc w = (res, w') \<Longrightarrow> same_store w w'"
proof (induction rs arbitrary: acc w)
  case Nil
  then show ?case by simp
next
  case (Cons r rs)
  then show ?case
    by (auto split: prod.splits dest!: Cons.IH process_repo_store intro: same_store_trans)
qed

lemma db_select_pair: "db_select sv cid w = (fst (db_select sv cid w), tick w)"
  by (simp add: db_select_def)

lemma db_select_missing:
  assumes "rows w cid = None" "db_fault sv (clock w) = None"
  shows "fst (db_select sv cid w) = \<lparr>data = None, error = Some (DbError ''PGRST116'')\<rparr>"
  using assms by (simp add: db_select_def)

lemma db_update_updates:
  "db_update sv cid f w = (e, w') \<Longrightarrow> updates w' = updates w @ [(cid, f)]"
  by (auto simp: db_update_def Let_def)

lemma scrape_main_not_found:
  assumes "error (fst (db_select sv cid w)) \<noteq> None \<or> data (fst (db_select sv cid w)) = None"
  shows "same_store w (scrape_main sv cid w)"
proof -
  obtain resp where r: "db_select sv cid w = (resp, tick w)"
    using db_select_pair by blast
  with assms have "error resp \<noteq> None \<or> data resp = None" by simp
  then show ?thesis
    unfolding scrape_main_def r by (auto split: option.splits)
qed

lemma email_main_not_found:
  assumes "error (fst (db_select sv cid w)) \<noteq> None \<or> data (fst (db_select sv cid w)) = None"
  shows "same_store w (email_main sv cid w)"
proof -
  obtain resp where r: "db_select sv cid w = (resp, tick w)"
    using db_select_pair by blast
  with assms have "error resp \<noteq> None \<or> data resp = None" by simp
  then show ?thesis
    unfolding email_main_def r by (auto split: option.splits)
qed

lemma updateNiceData_not_found:
  assumes "error (fst (db_select sv cid w)) \<noteq> None \<or> data (fst (db_select sv cid w)) = None"
  shows "same_store w (snd (updateNiceData sv cid w)) \<and> fst (updateNiceData sv cid w) = None"
proof -
  obtain resp where r: "db_select sv cid w = (resp, tick w)"
    using db_select_pair by blast
  with assms have "error resp \<noteq> None \<or> data resp = None" by simp
  then show ?thesis
    unfolding updateNiceData_def r by (auto split: option.splits)
qed

text \<open>
  C9. Let the lookup of the company answer with an error or with no row (as it does when
  the store has no row of that id). Then each of the three stages (\<^verbatim>\<open>main\<close> of
  \<^verbatim>\<open>scrape.js\<close>, \<^verbatim>\<open>updateNiceData\<close>, \<^verbatim>\<open>main\<close> of \<^verbatim>\<open>email.js\<close>) returns with no update
  issued and every row of the store as it was, so \<open>scraped_data\<close>, \<open>nice_data\<close> and
  \<open>email\<close> are unchanged; \<^verbatim>\<open>updateNiceData\<close> ends without an error.
\<close>

theorem not_found_no_update:
  "((error (fst (db_select sv cid w)) \<noteq> None \<or> data (fst (db_select sv cid w)) = None) \<longrightarrow>
      updates (scrape_main sv cid w) = updates w \<and> rows (scrape_main sv cid w) = rows w
    \<and> updates (snd (updateNiceData sv cid w)) = updates w
    \<and> rows (snd (updateNiceData sv cid w)) = rows w
    \<and> fst (updateNiceData sv cid w) = None
    \<and> updates (email_main sv cid w) = updates w \<and> rows (email_main sv cid w) = rows w)
   \<and> (rows w cid = None \<and> db_fault sv (clock w) = None \<longrightarrow>
        error (fst (db_select sv cid w)) \<noteq> None \<and> data (fst (db_select sv cid w)) = None)"
proof (intro conjI impI)
  assume a: "error (fst (db_select sv cid w)) \<noteq> None \<or> data (fst (db_select sv cid w)) = None"
  from scrape_main_not_found [OF a]
  show "updates (scrape_main sv cid w) = updates w" "rows (scrape_main sv cid w) = rows w"
    by (simp_all add: same_store_def)
  from updateNiceData_not_found [OF a]
  show "updates (snd (updateNiceData sv cid w)) = updates w"
    "rows (snd (updateNiceData sv cid w)) = rows w" "fst (updateNiceData sv cid w) = None"
    by (simp_all add: same_store_def)
  from email_main_not_found [OF a]
  show "updates (email_main sv cid w) = updates w" "rows (email_main sv cid w) = rows w"
    by (simp_all add: same_store_def)
next
  assume b: "rows w cid = None \<and> db_fault sv (clock w) = None"
  then show "error (fst (db_select sv cid w)) \<noteq> None" "data (fst (db_select sv cid w)) = None"
    by (simp_all add: db_select_missing)
qed

theorem not_found_no_update_witness:
  "rows demo_world 999 = None
   \<and> db_fault down_services (clock demo_world) = None
   \<and> error (fst (db_select down_services 999 demo_world)) \<noteq> None
   \<and> updates (scrape_main down_services 999 demo_world) = []
   \<and> updates (snd (updateNiceData down_services 999 demo_world)) = []
   \<and> updates (email_main down_services 999 demo_world) = []
   \<and> rows (scrape_main down_services 999 demo_world) 107 = Some elastic
   \<and> rows (snd (updateNiceData down_services 999 demo_world)) 107 = Some elastic
   \<and> rows (email_main down_services 999 demo_world) 107 = Some elastic"
proof -
  have a: "rows demo_world 999 = None" by (simp add: demo_world_def)
  have b: "db_fault down_services (clock demo_world) = None" by (simp add: down_services_def)
  have u: "updates demo_world = []" "rows demo_world 107 = Some elastic"
    by (simp_all add: demo_world_def)
  from not_found_no_update [of down_services 999 demo_world] a b u show ?thesis by simp
qed

section \<open>A failed listing of the organization's repositories\<close>

lemma scrape_main_listing_fails:
  assumes "error (fst (db_select sv cid w)) = None"
    and "data (fst (db_select sv cid w)) = Some company"
    and "resolveOrg (parseURL sv) (website company) = Inr orgName"
    and "listForOrg sv (clock w + 1) orgName = Inl e"
  shows "scrape_main sv cid w = console_error ''Unexpected error:'' (tick (tick w))"
proof -
  obtain resp where r: "db_select sv cid w = (resp, tick w)"
    using db_select_pair by blast
  with assms have "error resp = None" "data resp = Some company" by simp_all
  moreover have "clock (tick w) = clock w + 1" by (simp add: tick_def)
  ultimately show ?thesis
    unfolding scrape_main_def r using assms(3,4) by simp
qed

text \<open>
  C2, in the form that holds of the code. When the company is found, its URL resolves to an organization and the
  listing of the organization's repositories fails, the scrape stage prints
  \<open>Unexpected error:\<close> and ends there: no repository is selected or processed and no
  update is issued, so the store is as it was and nothing, not even an empty result, is
  persisted for the company.
\<close>

theorem listing_failure_ends_stage:
  assumes "error (fst (db_select sv cid w)) = None"
    and "data (fst (db_select sv cid w)) = Some company"
    and "resolveOrg (parseURL sv) (website company) = Inr orgName"
    and "listForOrg sv (clock w + 1) orgName = Inl e"
  shows "updates (scrape_main sv cid w) = updates w
    \<and> rows (scrape_main sv cid w) = rows w
    \<and> errlog (scrape_main sv cid w) = errlog w @ [''Unexpected error:'']
    \<and> clock (scrape_main sv cid w) = clock w + 2"
  unfolding scrape_main_listing_fails [OF assms]
  by (simp add: console_error_def tick_def)

lemma select_elastic:
  "fst (db_select down_services 107 demo_world) = \<lparr>data = Some elastic, error = None\<rparr>"
  by (simp add: db_select_def down_services_def demo_world_def)

theorem listing_failure_ends_stage_witness:
  "error (fst (db_select down_services 107 demo_world)) = None
   \<and> data (fst (db_select down_services 107 demo_world)) = Some elastic
   \<and> resolveOrg (parseURL down_services) (website elastic) = Inr ''elastic''
   \<and> listForOrg down_services (clock demo_world + 1) ''elastic'' = Inl (RequestError ''503'')
   \<and> updates (scrape_main down_services 107 demo_world) = []
   \<and> rows (scrape_main down_services 107 demo_world) 107 = Some elastic
   \<and> errlog (scrape_main down_services 107 demo_world) = [''Unexpected error:'']"
proof -
  have a: "error (fst (db_select down_services 107 demo_world)) = None"
    and b: "data (fst (db_select down_services 107 demo_world)) = Some elastic"
    by (simp_all add: select_elastic)
  have c: "resolveOrg (parseURL down_services) (website elastic) = Inr ''elastic''"
    by (simp add: down_services_def elastic_def resolve_elastic)
  have d: "listForOrg down_services (clock demo_world + 1) ''elastic'' = Inl (RequestError ''503'')"
    by (simp add: down_services_def)
  have w: "updates demo_world = []" "rows demo_world 107 = Some elastic" "errlog demo_world = []"
    by (simp_all add: demo_world_def)
  from listing_failure_ends_stage [OF a b c d] a b c d w show ?thesis by simp
qed

text \<open>
  C2 as the specification words it fails: the listing fails, the stage ends with the store
  untouched, and no update, empty or not, has been issued.
\<close>

theorem listing_failure_counterexample:
  "listForOrg down_services 1 ''elastic'' = Inl (RequestError ''503'')
   \<and> scrape_main down_services 107 demo_world =
       \<lparr>clock = 2, rows = [107 \<mapsto> elastic], updates = [], errlog = [''Unexpected error:'']\<rparr>
   \<and> scraped_data elastic = None"
  by (simp add: scrape_main_def db_select_def down_services_def demo_world_def elastic_def
      resolve_elastic tick_def console_error_def)


section \<open>Stats of the persisted commits\<close>

lemma commit_record_stats: "stats (commit_record d) \<noteq> None"
  by (simp add: commit_record_def)

lemma process_commits_stats:
  assumes "process_commits sv org rn shas acc w = (cs, w')"
    and "\<forall>c \<in> set acc. stats c \<noteq> None"
  shows "\<forall>c \<in> set cs. stats c \<noteq> None"
  using assms
proof (induction shas arbitrary: acc w)
  case Nil
  then show ?case by simp
next
  case (Cons s shas)
  show ?case
  proof (cases "getCommit sv (clock w) org rn s")
    case (Inl e)
    with Cons.prems show ?thesis by (auto dest!: Cons.IH)
  next
    case (Inr d)
    with Cons.prems(1)
    have "process_commits sv org rn shas (acc @ [commit_record d]) (tick w) = (cs, w')"
      by simp
    moreover have "\<forall>c \<in> set (acc @ [commit_record d]). stats c \<noteq> None"
      using Cons.prems(2) commit_record_stats [of d] by auto
    ultimately show ?thesis by (rule Cons.IH)
  qed
qed

lemma fetch_commits_stats:
  "fetch_commits sv org rn w = (cs, w') \<Longrightarrow> \<forall>c \<in> set cs. stats c \<noteq> None"
  by (auto simp: fetch_commits_def split: sum.splits dest!: process_commits_stats)

lemma process_repo_stats: "process_repo sv org r w = (rd, w') \<Longrightarrow> stats_present rd"
  by (auto simp: process_repo_def stats_present_def split: prod.splits dest!: fetch_commits_stats)

lemma process_repos_stats:
  assumes "process_repos sv org rs acc w = (res, w')"
    and "\<forall>r \<in> set acc. stats_present r"
  shows "\<forall>r \<in> set res. stats_present r"
  using assms
proof (induction rs arbitrary: acc w)
  case Nil
  then show ?case by simp
next
  case (Cons r rs)
  obtain rd w1 where p: "process_repo sv org r w = (rd, w1)"
    by (cases "process_repo sv org r w")
  with Cons.prems(1) have "process_repos sv org rs (acc @ [rd]) w1 = (res, w')" by simp
  moreover have "\<forall>r \<in> set (acc @ [rd]). stats_present r"
    using Cons.prems(2) process_repo_stats [OF p] by simp
  ultimately show ?case by (rule Cons.IH)
qed

lemma map_filter_all_Some:
  "\<forall>x \<in> set xs. f x \<noteq> None \<Longrightarrow> length (List.map_filter f xs) = length xs"
  by (induction xs) (auto simp: List.map_filter_simps)

lemma window_all_stats:
  assumes "\<forall>c \<in> set cs. stats c \<noteq> None"
  shows "length (window_stats cs) = min 3 (length cs)"
proof -
  have "\<forall>c \<in> set (take 3 cs). stats c \<noteq> None"
    using assms by (auto dest: in_set_takeD)
  then show ?thesis
    unfolding window_stats_def by (simp add: map_filter_all_Some)
qed

lemma scrape_main_updates:
  "updates (scrape_main sv cid w) = updates w \<or>
   (\<exists>results. updates (scrape_main sv cid w) = updates w @ [(cid, ScrapedData results)]
      \<and> (\<forall>r \<in> set results. stats_present r))"
proof -
  obtain resp where r: "db_select sv cid w = (resp, tick w)"
    using db_select_pair by blast
  show ?thesis
  proof (cases "error resp = None \<and> data resp \<noteq> None")
    case False
    then have "same_store w (scrape_main sv cid w)"
      using scrape_main_not_found [of sv cid w] r by auto
    then show ?thesis by (simp add: same_store_def)
  next
    case True
    then obtain company where c: "error resp = None" "data resp = Some company" by auto
    show ?thesis
    proof (cases "resolveOrg (parseURL sv) (website company)")
      case (Inl e)
      then show ?thesis
        unfolding scrape_main_def r using c by (simp add: console_error_def tick_def)
    next
      case org: (Inr orgName)
      show ?thesis
      proof (cases "listForOrg sv (clock (tick w)) orgName")
        case (Inl e)
        then show ?thesis
          unfolding scrape_main_def r using c org by (simp add: console_error_def tick_def)
      next
        case (Inr repos)
        let ?top = "take 1 (sort_key (\<lambda>r. - stargazers_count r) repos)"
        obtain results w2
          where p: "process_repos sv orgName ?top [] (tick (tick w)) = (results, w2)"
          by (cases "process_repos sv orgName ?top [] (tick (tick w))")
        obtain ue w3 where u: "db_update sv cid (ScrapedData results) w2 = (ue, w3)"
          by (cases "db_update sv cid (ScrapedData results) w2")
        have st: "\<forall>r \<in> set results. stats_present r"
          using process_repos_stats [OF p] by simp
        have "same_store (tick (tick w)) w2" using p by (rule process_repos_store)
        then have "updates w2 = updates w" by simp (simp add: same_store_def)
        with db_update_updates [OF u]
        have "updates w3 = updates w @ [(cid, ScrapedData results)]" by simp
        moreover have "scrape_main sv cid w =
            (if ue \<noteq> None
             then console_error ''Error updating company record with scraped data:'' w3
             else w3)"
          unfolding scrape_main_def r using c org Inr p u by (simp add: Let_def)
        ultimately
        have "updates (scrape_main sv cid w) = updates w @ [(cid, ScrapedData results)]"
          by (simp add: console_error_def)
        with st show ?thesis by blast
      qed
    qed
  qed
qed

text \<open>
  C10. The scrape stage issues no update or exactly one, of \<open>scraped_data\<close> for the given
  company; in the repositories it persists every commit carries a stats tuple, so the
  check \<^verbatim>\<open>if (commit.stats)\<close> succeeds on each commit of the metrics window (the count is
  the number of commits of the window). A commit detail without stats is stored with
  \<open>{additions: 0, deletions: 0, total: 0}\<close>, the very record stored for a detail whose
  stats are those zeros; stats that are present are stored as they are.
\<close>

theorem persisted_commits_have_stats:
  "(updates (scrape_main sv cid w) = updates w
    \<or> (\<exists>results. updates (scrape_main sv cid w) = updates w @ [(cid, ScrapedData results)]
         \<and> (\<forall>r \<in> set results. \<exists>cs. commits r = Some cs
               \<and> (\<forall>c \<in> set cs. stats c \<noteq> None)
               \<and> length (window_stats cs) = min 3 (length cs))))
   \<and> stats (commit_record (d\<lparr>detail_stats := None\<rparr>))
        = Some \<lparr>additions = 0, deletions = 0, total_stat = 0\<rparr>
   \<and> commit_record (d\<lparr>detail_stats := None\<rparr>)
        = commit_record (d\<lparr>detail_stats := Some \<lparr>additions = 0, deletions = 0, total_stat = 0\<rparr>\<rparr>)
   \<and> stats (commit_record (d\<lparr>detail_stats := Some s\<rparr>)) = Some s"
proof (intro conjI)
  show "updates (scrape_main sv cid w) = updates w
    \<or> (\<exists>results. updates (scrape_main sv cid w) = updates w @ [(cid, ScrapedData results)]
         \<and> (\<forall>r \<in> set results. \<exists>cs. commits r = Some cs
               \<and> (\<forall>c \<in> set cs. stats c \<noteq> None)
               \<and> length (window_stats cs) = min 3 (length cs)))"
    using scrape_main_updates [of sv cid w]
    unfolding stats_present_def by (meson window_all_stats)
qed (simp_all add: commit_record_def commitAuthor_def zero_stats_def)

lemma scrape_elastic:
  "updates (scrape_main up_services 107 demo_world) = [(107, ScrapedData [scraped_core])]"
  by (simp add: scrape_main_def db_select_def up_services_def down_services_def demo_world_def
      elastic_def resolve_elastic tick_def console_error_def process_repo_def
      fetch_contributors_def contributor_name_def fetch_commits_def commit_record_def
      commitAuthor_def diffText_def zero_stats_def computeAverages_def top3_totals_def
      round_quot_div db_update_def truthy_def scraped_core_def Let_def)

theorem persisted_commits_have_stats_witness:
  "updates (scrape_main up_services 107 demo_world) = [(107, ScrapedData [scraped_core])]
   \<and> (\<exists>cs. commits scraped_core = Some cs
         \<and> list_all (\<lambda>c. stats c \<noteq> None) cs
         \<and> length (window_stats cs) = min 3 (length cs))
   \<and> getCommit up_services 5 ''elastic'' ''core'' ''c1'' =
        Inr \<lparr>author_login = Some ''ann'', commit_author_name = Some ''Ann'',
             commit_message = ''fix'', files = Some [], detail_stats = None\<rparr>"
proof -
  have u: "updates demo_world = []" by (simp add: demo_world_def)
  have g: "getCommit up_services 5 ''elastic'' ''core'' ''c1'' =
        Inr \<lparr>author_login = Some ''ann'', commit_author_name = Some ''Ann'',
             commit_message = ''fix'', files = Some [], detail_stats = None\<rparr>"
    by (simp add: up_services_def)
  from persisted_commits_have_stats [of up_services 107 demo_world]
  have "\<exists>cs. commits scraped_core = Some cs
         \<and> (\<forall>c \<in> set cs. stats c \<noteq> None)
         \<and> length (window_stats cs) = min 3 (length cs)"
    unfolding scrape_elastic u by simp
  then have "\<exists>cs. commits scraped_core = Some cs
         \<and> list_all (\<lambda>c. stats c \<noteq> None) cs
         \<and> length (window_stats cs) = min 3 (length cs)"
    by (simp add: list_all_iff)
  with scrape_elastic g show ?thesis by blast
qed


section \<open>The people of a repository\<close>

lemma set_add_set: "set (foldl set_add acc xs) = set acc \<union> set xs"
  by (induction xs arbitrary: acc) auto

lemma set_add_distinct: "distinct acc \<Longrightarrow> distinct (foldl set_add acc xs)"
  by (induction xs arbitrary: acc) auto

lemma new_Set_set: "set (new_Set xs) = set xs"
  by (simp add: new_Set_def set_add_set)

lemma new_Set_distinct: "distinct (new_Set xs)"
  by (simp add: new_Set_def set_add_distinct)

lemma new_Set_length: "length (new_Set xs) = card (set xs)"
  using distinct_card [OF new_Set_distinct, of xs] by (simp add: new_Set_set)

lemma process_author_username: "username (fst (process_author sv a w)) = a"
  by (simp add: process_author_def split: prod.splits sum.splits)

lemma process_authors_usernames:
  "map username (fst (process_authors sv as ps w)) = map username ps @ as"
proof (induction as arbitrary: ps w)
  case Nil
  then show ?case by simp
next
  case (Cons a as)
  obtain p w1 where p: "process_author sv a w = (p, w1)" by (cases "process_author sv a w")
  then have "username p = a" using process_author_username [of sv a w] by simp
  then show ?case by (simp add: p Cons.IH)
qed

lemma nice_repo_of_people:
  assumes "commits r = Some cs"
  shows "\<exists>nr. fst (nice_repo_of sv r w) = Inr nr
           \<and> map username (people nr) = new_Set (map author cs)"
proof -
  obtain ncs w1 where n: "nice_commits sv cs [] w = (ncs, w1)"
    by (cases "nice_commits sv cs [] w")
  obtain ps w2 where p: "process_authors sv (new_Set (map author cs)) [] w1 = (ps, w2)"
    by (cases "process_authors sv (new_Set (map author cs)) [] w1")
  have "map username ps = new_Set (map author cs)"
    using process_authors_usernames [of sv "new_Set (map author cs)" "[]" w1] p by simp
  then show ?thesis
    by (simp add: nice_repo_of_def assms n p Let_def)
qed

lemma technologies_failure:
  assumes "fst (technologies_try sv a w) = Inl e"
  shows "fst (getTechnologiesForContributor sv a w) = []
       \<and> technologies (fst (process_author sv a w)) = []"
proof -
  obtain w' where t: "technologies_try sv a w = (Inl e, w')"
    using assms by (cases "technologies_try sv a w") auto
  then have g: "fst (getTechnologiesForContributor sv a w) = []"
    by (simp add: getTechnologiesForContributor_def)
  then have "technologies (fst (process_author sv a w)) = []"
    by (auto simp: process_author_def split: prod.splits sum.splits)
  with g show ?thesis by simp
qed

lemma profile_fetch_fails:
  "getByUsername sv (clock w) a = Inl e \<Longrightarrow> fst (technologies_try sv a w) = Inl e"
  by (simp add: technologies_try_def)

lemma repos_fetch_fails:
  "getByUsername sv (clock w) a = Inr u \<Longrightarrow> listForUser sv (clock w + 1) a = Inl e
   \<Longrightarrow> fst (technologies_try sv a w) = Inl e"
  by (simp add: technologies_try_def tick_def Let_def)

lemma languages_fetch_fails:
  "getByUsername sv (clock w) a = Inr u
   \<Longrightarrow> listForUser sv (clock w + 1) a = Inr (Some (t # ts))
   \<Longrightarrow> listLanguages sv (clock w + 2) a t = Inl e
   \<Longrightarrow> fst (technologies_try sv a w) = Inl e"
  by (simp add: technologies_try_def tick_def Let_def)

lemma technologies_from_completion:
  "fst (technologies_try sv a w) = Inr ts \<Longrightarrow>
     \<exists>k p c. chat_completion sv k p = Inr (Some c) \<and> ts = parse_technologies c"
  by (auto simp: technologies_try_def tick_def Let_def
      split: sum.splits option.splits list.splits prod.splits)

lemma generation_fails:
  assumes "\<forall>k p. isl (chat_completion sv k p)"
  shows "isl (fst (technologies_try sv a w))"
proof (cases "fst (technologies_try sv a w)")
  case (Inl e)
  then show ?thesis by simp
next
  case (Inr ts)
  from technologies_from_completion [OF this] assms show ?thesis
    by (metis sum.disc(2))
qed

lemma second_profile_fetch_fails:
  "getByUsername sv (clock (snd (getTechnologiesForContributor sv a w))) a = Inl e
   \<Longrightarrow> technologies (fst (process_author sv a w)) = []"
  by (auto simp: process_author_def split: prod.splits sum.splits)

lemma nice_repos_no_error:
  "\<forall>r \<in> set rs. commits r \<noteq> None \<Longrightarrow> \<exists>ns. fst (nice_repos sv rs acc w) = Inr ns"
proof (induction rs arbitrary: acc w)
  case Nil
  then show ?case by simp
next
  case (Cons r rs)
  then obtain cs where c: "commits r = Some cs" by auto
  from nice_repo_of_people [OF c, of sv w]
  obtain nr w1 where n: "nice_repo_of sv r w = (Inr nr, w1)"
    by (cases "nice_repo_of sv r w") auto
  from Cons show ?case by (simp add: n)
qed

lemma updateNiceData_no_error:
  assumes "\<forall>company rs. data (fst (db_select sv cid w)) = Some company
             \<and> scraped_data company = Some rs \<longrightarrow> (\<forall>r \<in> set rs. commits r \<noteq> None)"
  shows "fst (updateNiceData sv cid w) = None"
proof -
  obtain resp where r: "db_select sv cid w = (resp, tick w)"
    using db_select_pair by blast
  show ?thesis
  proof (cases "error resp = None \<and> data resp \<noteq> None")
    case False
    then show ?thesis
      using updateNiceData_not_found [of sv cid w] r by auto
  next
    case True
    then obtain company where c: "error resp = None" "data resp = Some company" by auto
    show ?thesis
    proof (cases "scraped_data company")
      case None
      then show ?thesis unfolding updateNiceData_def r using c by simp
    next
      case (Some rs)
      with assms r c have "\<forall>r \<in> set rs. commits r \<noteq> None" by simp
      from nice_repos_no_error [OF this, of sv "[]" "tick w"]
      obtain ns w2 where n: "nice_repos sv rs [] (tick w) = (Inr ns, w2)"
        by (cases "nice_repos sv rs [] (tick w)") auto
      show ?thesis
        unfolding updateNiceData_def r using c Some n by (simp split: prod.splits)
    qed
  qed
qed

lemma author_worlds_length: "length (author_worlds sv as w) = length as"
  by (induction as arbitrary: w) simp_all

lemma process_authors_people:
  "fst (process_authors sv as ps w) =
     ps @ map (\<lambda>(a, wa). fst (process_author sv a wa)) (zip as (author_worlds sv as w))"
proof (induction as arbitrary: ps w)
  case Nil
  then show ?case by simp
next
  case (Cons a as)
  obtain p w1 where p: "process_author sv a w = (p, w1)" by (cases "process_author sv a w")
  then show ?case by (simp add: Cons.IH)
qed

lemma nice_repo_of_people_worlds:
  assumes "commits r = Some cs"
  shows "\<exists>nr. fst (nice_repo_of sv r w) = Inr nr
           \<and> people nr = map (\<lambda>(a, wa). fst (process_author sv a wa))
                             (zip (new_Set (map author cs)) (people_worlds sv cs w))"
proof -
  obtain ncs w1 where n: "nice_commits sv cs [] w = (ncs, w1)"
    by (cases "nice_commits sv cs [] w")
  obtain ps w2 where p: "process_authors sv (new_Set (map author cs)) [] w1 = (ps, w2)"
    by (cases "process_authors sv (new_Set (map author cs)) [] w1")
  have "ps = map (\<lambda>(a, wa). fst (process_author sv a wa))
               (zip (new_Set (map author cs)) (author_worlds sv (new_Set (map author cs)) w1))"
    using process_authors_people [of sv "new_Set (map author cs)" "[]" w1] p by simp
  then show ?thesis
    by (simp add: nice_repo_of_def assms n p Let_def people_worlds_def)
qed

lemma stored_person:
  assumes "people nr = map (\<lambda>(a, wa). fst (process_author sv a wa)) (zip as ws)"
    and "length ws = length as"
    and "i < length (people nr)"
  shows "people nr ! i = fst (process_author sv (as ! i) (ws ! i))"
proof -
  have "i < length (zip as ws)" using assms(1,3) by (metis length_map)
  then show ?thesis unfolding assms(1) by simp
qed

lemma technologies_success:
  assumes "fst (technologies_try sv a w) = Inr ts"
    and "getByUsername sv (clock (snd (getTechnologiesForContributor sv a w))) a = Inr u"
  shows "technologies (fst (process_author sv a w)) = ts"
proof -
  obtain w' where t: "technologies_try sv a w = (Inr ts, w')"
    using assms(1) by (cases "technologies_try sv a w") auto
  then have g: "getTechnologiesForContributor sv a w = (ts, w')"
    by (simp add: getTechnologiesForContributor_def)
  with assms(2) show ?thesis
    by (simp add: process_author_def)
qed

lemma generation_call_fails_no_repos:
  assumes "getByUsername sv (clock w) a = Inr u"
    and "listForUser sv (clock w + 1) a = Inr rd"
    and "rd = None \<or> rd = Some []"
    and "\<forall>c. chat_completion sv (clock w + 2)
               (technologies_prompt (case bio u of Some b \<Rightarrow> b | None \<Rightarrow> []) [])
             \<noteq> Inr (Some c)"
  shows "isl (fst (technologies_try sv a w))"
  using assms
  by (auto simp: technologies_try_def tick_def Let_def split: sum.splits option.splits)

lemma generation_call_fails_repos:
  assumes "getByUsername sv (clock w) a = Inr u"
    and "listForUser sv (clock w + 1) a = Inr (Some (t # ts))"
    and "listLanguages sv (clock w + 2) a t = Inr langs"
    and "\<forall>c. chat_completion sv (clock w + 3)
               (technologies_prompt (case bio u of Some b \<Rightarrow> b | None \<Rightarrow> [])
                  (''Repository: '' @ t @ ''. Languages: '' @ join '', '' langs @ ''.''))
             \<noteq> Inr (Some c)"
  shows "isl (fst (technologies_try sv a w))"
  using assms
  by (auto simp: technologies_try_def tick_def Let_def eval_nat_numeral
      split: sum.splits option.splits)

lemma summarizeCommitDiff_store: "summarizeCommitDiff sv d w = (s, w') \<Longrightarrow> same_store w w'"
  by (auto simp: summarizeCommitDiff_def Let_def split: sum.splits option.splits)

lemma summarizeCommitMessage_store:
  "summarizeCommitMessage sv m w = (s, w') \<Longrightarrow> same_store w w'"
  by (auto simp: summarizeCommitMessage_def Let_def split: sum.splits option.splits)

lemma nice_commit_of_store: "nice_commit_of sv c w = (nc, w') \<Longrightarrow> same_store w w'"
  by (auto simp: nice_commit_of_def split: prod.splits if_splits option.splits
      dest!: summarizeCommitDiff_store summarizeCommitMessage_store intro: same_store_trans)

lemma nice_commits_store: "nice_commits sv cs acc w = (ncs, w') \<Longrightarrow> same_store w w'"
proof (induction cs arbitrary: acc w)
  case Nil
  then show ?case by simp
next
  case (Cons c cs)
  then show ?case
    by (auto split: prod.splits dest!: Cons.IH nice_commit_of_store intro: same_store_trans)
qed

lemma technologies_try_store: "technologies_try sv a w = (res, w') \<Longrightarrow> same_store w w'"
  by (auto simp: technologies_try_def Let_def
      split: sum.splits option.splits list.splits prod.splits)

lemma getTechnologies_store:
  "getTechnologiesForContributor sv a w = (ts, w') \<Longrightarrow> same_store w w'"
  by (auto simp: getTechnologiesForContributor_def split: prod.splits sum.splits
      dest!: technologies_try_store)

lemma process_author_store: "process_author sv a w = (p, w') \<Longrightarrow> same_store w w'"
  by (auto simp: process_author_def split: prod.splits sum.splits dest!: getTechnologies_store)

lemma process_authors_store: "process_authors sv as ps w = (res, w') \<Longrightarrow> same_store w w'"
proof (induction as arbitrary: ps w)
  case Nil
  then show ?case by simp
next
  case (Cons a as)
  then show ?case
    by (auto split: prod.splits dest!: Cons.IH process_author_store intro: same_store_trans)
qed

lemma nice_repo_of_store: "nice_repo_of sv r w = (res, w') \<Longrightarrow> same_store w w'"
  by (auto simp: nice_repo_of_def Let_def split: prod.splits option.splits
      dest!: nice_commits_store process_authors_store intro: same_store_trans)

lemma nice_repos_store: "nice_repos sv rs acc w = (res, w') \<Longrightarrow> same_store w w'"
proof (induction rs arbitrary: acc w)
  case Nil
  then show ?case by simp
next
  case (Cons r rs)
  then show ?case
    by (auto split: prod.splits sum.splits dest!: Cons.IH nice_repo_of_store
        intro: same_store_trans)
qed

lemma nice_repos_eq:
  assumes "\<forall>r \<in> set rs. commits r \<noteq> None"
  shows "fst (nice_repos sv rs acc w) =
     Inr (acc @ map (\<lambda>(r, wr). projr (fst (nice_repo_of sv r wr))) (zip rs (repo_worlds sv rs w)))"
  using assms
proof (induction rs arbitrary: acc w)
  case Nil
  then show ?case by simp
next
  case (Cons r rs)
  then obtain cs where c: "commits r = Some cs" by auto
  from nice_repo_of_people [OF c, of sv w]
  obtain nr w1 where n: "nice_repo_of sv r w = (Inr nr, w1)"
    by (cases "nice_repo_of sv r w") auto
  from Cons show ?case by (simp add: n)
qed

lemma updateNiceData_persists:
  assumes "error (fst (db_select sv cid w)) = None"
    and "data (fst (db_select sv cid w)) = Some company"
    and "scraped_data company = Some rs"
    and "\<forall>r \<in> set rs. commits r \<noteq> None"
  shows "updates (snd (updateNiceData sv cid w)) =
           updates w @
           [(cid, NiceData (map (\<lambda>(r, wr). projr (fst (nice_repo_of sv r wr)))
                                (zip rs (repo_worlds sv rs (tick w)))))]"
proof -
  let ?ns = "map (\<lambda>(r, wr). projr (fst (nice_repo_of sv r wr))) (zip rs (repo_worlds sv rs (tick w)))"
  obtain resp where r: "db_select sv cid w = (resp, tick w)"
    using db_select_pair by blast
  with assms have c: "error resp = None" "data resp = Some company" by simp_all
  obtain w2 where n: "nice_repos sv rs [] (tick w) = (Inr ?ns, w2)"
    using nice_repos_eq [OF assms(4), of sv "[]" "tick w"]
    by (cases "nice_repos sv rs [] (tick w)") auto
  obtain ue w3 where u: "db_update sv cid (NiceData ?ns) w2 = (ue, w3)"
    by (cases "db_update sv cid (NiceData ?ns) w2")
  have "same_store (tick w) w2" using n by (rule nice_repos_store)
  then have "updates w2 = updates w" by simp (simp add: same_store_def)
  with db_update_updates [OF u] have "updates w3 = updates w @ [(cid, NiceData ?ns)]" by simp
  moreover have "snd (updateNiceData sv cid w) =
      (if ue \<noteq> None then console_error ''Error updating company record with nice_data:'' w3
       else w3)"
    unfolding updateNiceData_def r using c assms(3) n u by simp
  ultimately show ?thesis by (simp add: console_error_def)
qed

text \<open>
  C8. For a repository whose commits are \<open>cs\<close>, the enriched repository has one person per
  distinct author string of \<open>cs\<close>, in the order of first occurrence: the usernames are
  distinct, they are the authors of \<open>cs\<close>, and their number is the number of distinct
  authors, so authors \<open>a, b, a, c\<close> give three people. The person stored for an author is
  the one the author's own round of the loop has made, in the state the loop was in; when
  the technology lookup of that round fails, or its second profile fetch, the technology
  list stored for the author is empty, and the author is still listed. The lookup made in
  a state fails when its profile fetch fails, when its repository fetch fails, when its
  language fetch fails and when its one call of the generation service fails or answers
  without content (the call is the third of the lookup when the user has no repository,
  the fourth otherwise); when the lookup and the second profile fetch succeed the list is
  the parsed answer. None of these failures leaves the stage as an error: when every
  repository read from the store has a commit array, \<^verbatim>\<open>updateNiceData\<close> ends without
  one, and the one update it issues carries, for each repository in order, the enriched
  repository of that round.
\<close>

theorem enricher_people:
  "(commits r = Some cs \<longrightarrow>
      (\<exists>nr. fst (nice_repo_of sv r w) = Inr nr
         \<and> map username (people nr) = new_Set (map author cs)
         \<and> distinct (map username (people nr))
         \<and> set (map username (people nr)) = set (map author cs)
         \<and> length (people nr) = card (set (map author cs))
         \<and> people nr = map (\<lambda>(a, wa). fst (process_author sv a wa))
                           (zip (new_Set (map author cs)) (people_worlds sv cs w))
         \<and> length (people_worlds sv cs w) = length (people nr)
         \<and> (\<forall>i < length (people nr).
               username (people nr ! i) = new_Set (map author cs) ! i
               \<and> (isl (fst (technologies_try sv (new_Set (map author cs) ! i)
                                (people_worlds sv cs w ! i)))
                    \<longrightarrow> technologies (people nr ! i) = [])
               \<and> (isl (getByUsername sv
                          (clock (snd (getTechnologiesForContributor sv
                                         (new_Set (map author cs) ! i)
                                         (people_worlds sv cs w ! i))))
                          (new_Set (map author cs) ! i))
                    \<longrightarrow> technologies (people nr ! i) = []))))
   \<and> (a \<noteq> b \<and> a \<noteq> c \<and> b \<noteq> c \<longrightarrow> new_Set [a, b, a, c] = [a, b, c])
   \<and> (fst (technologies_try sv au w) = Inl e \<longrightarrow>
        fst (getTechnologiesForContributor sv au w) = []
        \<and> technologies (fst (process_author sv au w)) = []
        \<and> username (fst (process_author sv au w)) = au)
   \<and> (getByUsername sv (clock w) au = Inl e \<longrightarrow> fst (technologies_try sv au w) = Inl e)
   \<and> (getByUsername sv (clock w) au = Inr u \<and> listForUser sv (clock w + 1) au = Inl e
        \<longrightarrow> fst (technologies_try sv au w) = Inl e)
   \<and> (getByUsername sv (clock w) au = Inr u
        \<and> listForUser sv (clock w + 1) au = Inr (Some (t # ts))
        \<and> listLanguages sv (clock w + 2) au t = Inl e
        \<longrightarrow> fst (technologies_try sv au w) = Inl e)
   \<and> ((\<forall>k p. isl (chat_completion sv k p)) \<longrightarrow> isl (fst (technologies_try sv au w)))
   \<and> (getByUsername sv (clock (snd (getTechnologiesForContributor sv au w))) au = Inl e
        \<longrightarrow> technologies (fst (process_author sv au w)) = [])
   \<and> ((\<forall>company rs. data (fst (db_select sv cid w)) = Some company
          \<and> scraped_data company = Some rs \<longrightarrow> (\<forall>r \<in> set rs. commits r \<noteq> None))
        \<longrightarrow> fst (updateNiceData sv cid w) = None)
   \<and> (getByUsername sv (clock w) au = Inr u
        \<and> listForUser sv (clock w + 1) au = Inr rd \<and> (rd = None \<or> rd = Some [])
        \<and> (\<forall>content. chat_completion sv (clock w + 2)
               (technologies_prompt (case bio u of Some b \<Rightarrow> b | None \<Rightarrow> []) [])
              \<noteq> Inr (Some content))
        \<longrightarrow> isl (fst (technologies_try sv au w)))
   \<and> (getByUsername sv (clock w) au = Inr u
        \<and> listForUser sv (clock w + 1) au = Inr (Some (t # ts))
        \<and> listLanguages sv (clock w + 2) au t = Inr langs
        \<and> (\<forall>content. chat_completion sv (clock w + 3)
               (technologies_prompt (case bio u of Some b \<Rightarrow> b | None \<Rightarrow> [])
                  (''Repository: '' @ t @ ''. Languages: '' @ join '', '' langs @ ''.''))
              \<noteq> Inr (Some content))
        \<longrightarrow> isl (fst (technologies_try sv au w)))
   \<and> (fst (technologies_try sv au w) = Inr techs
        \<and> getByUsername sv (clock (snd (getTechnologiesForContributor sv au w))) au = Inr u
        \<longrightarrow> technologies (fst (process_author sv au w)) = techs)
   \<and> (error (fst (db_select sv cid w)) = None
        \<and> data (fst (db_select sv cid w)) = Some co
        \<and> scraped_data co = Some repos
        \<and> (\<forall>r \<in> set repos. commits r \<noteq> None)
        \<longrightarrow> updates (snd (updateNiceData sv cid w)) =
              updates w @
              [(cid, NiceData (map (\<lambda>(r, wr). projr (fst (nice_repo_of sv r wr)))
                                   (zip repos (repo_worlds sv repos (tick w)))))])"
proof (intro conjI impI)
  assume c: "commits r = Some cs"
  let ?A = "new_Set (map author cs)"
  let ?W = "people_worlds sv cs w"
  from nice_repo_of_people [OF c, of sv w]
  obtain nr where n: "fst (nice_repo_of sv r w) = Inr nr"
    and p: "map username (people nr) = ?A"
    by blast
  from nice_repo_of_people_worlds [OF c, of sv w] n
  have pw: "people nr = map (\<lambda>(a, wa). fst (process_author sv a wa)) (zip ?A ?W)"
    by auto
  have lw: "length ?W = length ?A"
    by (simp add: people_worlds_def author_worlds_length)
  have la: "length (people nr) = length ?A"
    using arg_cong [OF p, of length] by simp
  have l: "length (people nr) = card (set (map author cs))"
    unfolding la by (simp only: new_Set_length)
  have d: "distinct (map username (people nr))" unfolding p by (rule new_Set_distinct)
  have s: "set (map username (people nr)) = set (map author cs)"
    unfolding p by (rule new_Set_set)
  have each: "\<forall>i < length (people nr).
               username (people nr ! i) = ?A ! i
               \<and> (isl (fst (technologies_try sv (?A ! i) (?W ! i)))
                    \<longrightarrow> technologies (people nr ! i) = [])
               \<and> (isl (getByUsername sv
                          (clock (snd (getTechnologiesForContributor sv (?A ! i) (?W ! i))))
                          (?A ! i))
                    \<longrightarrow> technologies (people nr ! i) = [])"
  proof (intro allI impI conjI)
    fix i
    assume i: "i < length (people nr)"
    have pi: "people nr ! i = fst (process_author sv (?A ! i) (?W ! i))"
      using pw lw i by (rule stored_person)
    show "username (people nr ! i) = ?A ! i"
      unfolding pi by (rule process_author_username)
    {
      assume "isl (fst (technologies_try sv (?A ! i) (?W ! i)))"
      then obtain e where "fst (technologies_try sv (?A ! i) (?W ! i)) = Inl e"
        by (cases "fst (technologies_try sv (?A ! i) (?W ! i))") auto
      from technologies_failure [OF this]
      show "technologies (people nr ! i) = []" unfolding pi by simp
    }
    {
      assume "isl (getByUsername sv
                    (clock (snd (getTechnologiesForContributor sv (?A ! i) (?W ! i))))
                    (?A ! i))"
      then obtain e where "getByUsername sv
                    (clock (snd (getTechnologiesForContributor sv (?A ! i) (?W ! i))))
                    (?A ! i) = Inl e"
        by (cases "getByUsername sv
                    (clock (snd (getTechnologiesForContributor sv (?A ! i) (?W ! i))))
                    (?A ! i)") auto
      from second_profile_fetch_fails [OF this]
      show "technologies (people nr ! i) = []" unfolding pi .
    }
  qed
  have lw': "length ?W = length (people nr)" using lw la by simp
  show "\<exists>nr. fst (nice_repo_of sv r w) = Inr nr
         \<and> map username (people nr) = ?A
         \<and> distinct (map username (people nr))
         \<and> set (map username (people nr)) = set (map author cs)
         \<and> length (people nr) = card (set (map author cs))
         \<and> people nr = map (\<lambda>(a, wa). fst (process_author sv a wa)) (zip ?A ?W)
         \<and> length ?W = length (people nr)
         \<and> (\<forall>i < length (people nr).
               username (people nr ! i) = ?A ! i
               \<and> (isl (fst (technologies_try sv (?A ! i) (?W ! i)))
                    \<longrightarrow> technologies (people nr ! i) = [])
               \<and> (isl (getByUsername sv
                          (clock (snd (getTechnologiesForContributor sv (?A ! i) (?W ! i))))
                          (?A ! i))
                    \<longrightarrow> technologies (people nr ! i) = []))"
    by (intro exI [of _ nr] conjI) (rule n p d s l pw lw' each)+
next
  assume "a \<noteq> b \<and> a \<noteq> c \<and> b \<noteq> c"
  then show "new_Set [a, b, a, c] = [a, b, c]" by (auto simp: new_Set_def)
next
  assume f: "fst (technologies_try sv au w) = Inl e"
  from technologies_failure [OF f]
  show "fst (getTechnologiesForContributor sv au w) = []"
    "technologies (fst (process_author sv au w)) = []"
    by simp_all
  show "username (fst (process_author sv au w)) = au" by (rule process_author_username)
next
  assume "getByUsername sv (clock w) au = Inl e"
  then show "fst (technologies_try sv au w) = Inl e" by (rule profile_fetch_fails)
next
  assume "getByUsername sv (clock w) au = Inr u \<and> listForUser sv (clock w + 1) au = Inl e"
  then show "fst (technologies_try sv au w) = Inl e" by (simp add: repos_fetch_fails)
next
  assume "getByUsername sv (clock w) au = Inr u
        \<and> listForUser sv (clock w + 1) au = Inr (Some (t # ts))
        \<and> listLanguages sv (clock w + 2) au t = Inl e"
  then show "fst (technologies_try sv au w) = Inl e" by (simp add: languages_fetch_fails)
next
  assume "\<forall>k p. isl (chat_completion sv k p)"
  then show "isl (fst (technologies_try sv au w))" by (rule generation_fails)
next
  assume "getByUsername sv (clock (snd (getTechnologiesForContributor sv au w))) au = Inl e"
  then show "technologies (fst (process_author sv au w)) = []"
    by (rule second_profile_fetch_fails)
next
  assume "\<forall>company rs. data (fst (db_select sv cid w)) = Some company
          \<and> scraped_data company = Some rs \<longrightarrow> (\<forall>r \<in> set rs. commits r \<noteq> None)"
  then show "fst (updateNiceData sv cid w) = None" by (rule updateNiceData_no_error)
next
  assume h: "getByUsername sv (clock w) au = Inr u
        \<and> listForUser sv (clock w + 1) au = Inr rd \<and> (rd = None \<or> rd = Some [])
        \<and> (\<forall>content. chat_completion sv (clock w + 2)
               (technologies_prompt (case bio u of Some b \<Rightarrow> b | None \<Rightarrow> []) [])
              \<noteq> Inr (Some content))"
  then have h1: "getByUsername sv (clock w) au = Inr u"
    and h2: "listForUser sv (clock w + 1) au = Inr rd"
    and h3: "rd = None \<or> rd = Some []"
    and h4: "\<forall>content. chat_completion sv (clock w + 2)
               (technologies_prompt (case bio u of Some b \<Rightarrow> b | None \<Rightarrow> []) [])
              \<noteq> Inr (Some content)"
    by simp_all
  from h1 h2 h3 h4 show "isl (fst (technologies_try sv au w))"
    by (rule generation_call_fails_no_repos)
next
  assume h: "getByUsername sv (clock w) au = Inr u
        \<and> listForUser sv (clock w + 1) au = Inr (Some (t # ts))
        \<and> listLanguages sv (clock w + 2) au t = Inr langs
        \<and> (\<forall>content. chat_completion sv (clock w + 3)
               (technologies_prompt (case bio u of Some b \<Rightarrow> b | None \<Rightarrow> [])
                  (''Repository: '' @ t @ ''. Languages: '' @ join '', '' langs @ ''.''))
              \<noteq> Inr (Some content))"
  then have h1: "getByUsername sv (clock w) au = Inr u"
    and h2: "listForUser sv (clock w + 1) au = Inr (Some (t # ts))"
    and h3: "listLanguages sv (clock w + 2) au t = Inr langs"
    and h4: "\<forall>content. chat_completion sv (clock w + 3)
               (technologies_prompt (case bio u of Some b \<Rightarrow> b | None \<Rightarrow> [])
                  (''Repository: '' @ t @ ''. Languages: '' @ join '', '' langs @ ''.''))
              \<noteq> Inr (Some content)"
    by simp_all
  from h1 h2 h3 h4 show "isl (fst (technologies_try sv au w))"
    by (rule generation_call_fails_repos)
next
  assume "fst (technologies_try sv au w) = Inr techs
        \<and> getByUsername sv (clock (snd (getTechnologiesForContributor sv au w))) au = Inr u"
  then show "technologies (fst (process_author sv au w)) = techs"
    by (simp add: technologies_success)
next
  assume "error (fst (db_select sv cid w)) = None
        \<and> data (fst (db_select sv cid w)) = Some co
        \<and> scraped_data co = Some repos
        \<and> (\<forall>r \<in> set repos. commits r \<noteq> None)"
  then show "updates (snd (updateNiceData sv cid w)) =
              updates w @
              [(cid, NiceData (map (\<lambda>(r, wr). projr (fst (nice_repo_of sv r wr)))
                                   (zip repos (repo_worlds sv repos (tick w)))))]"
    by (simp add: updateNiceData_persists)
qed

lemma four_authors: "map author four_commits = [''ann'', ''bob'', ''ann'', ''cy'']"
  by (simp add: four_commits_def sample_commit_def)

lemma four_unique: "new_Set (map author four_commits) = [''ann'', ''bob'', ''cy'']"
  by (simp add: four_authors new_Set_def)

lemma down_people:
  "map technologies
     (case fst (nice_repo_of down_services four_author_repo demo_world) of
        Inr nr \<Rightarrow> people nr
      | Inl err \<Rightarrow> []) = [[], [], []]"
  by (simp add: nice_repo_of_def four_author_repo_def four_commits_def sample_commit_def
      stale_repo_def new_Set_def nice_commit_of_def summarizeCommitDiff_def
      summarizeCommitMessage_def down_services_def truthy_def process_author_def
      getTechnologiesForContributor_def technologies_try_def Let_def tick_def
      console_error_def demo_world_def)

lemma parse_rust_c: "parse_technologies ''Rust, C'' = [''Rust'', ''C'']"
  by (simp add: parse_technologies_def trim_def is_space_def truthy_def)

lemma mixed_people:
  "map technologies
     (case fst (nice_repo_of mixed_services four_author_repo demo_world) of
        Inr nr \<Rightarrow> people nr
      | Inl err \<Rightarrow> []) = [[], [''Rust'', ''C''], [''Rust'', ''C'']]"
  by (simp add: nice_repo_of_def four_author_repo_def four_commits_def sample_commit_def
      stale_repo_def new_Set_def nice_commit_of_def summarizeCommitDiff_def
      summarizeCommitMessage_def mixed_services_def down_services_def truthy_def
      process_author_def getTechnologiesForContributor_def technologies_try_def Let_def
      tick_def console_error_def demo_world_def parse_rust_c trim_def is_space_def)

lemma mixed_bob:
  "fst (technologies_try mixed_services ''bob'' demo_world) = Inr [''Rust'', ''C'']"
  by (simp add: technologies_try_def mixed_services_def down_services_def Let_def tick_def
      demo_world_def parse_rust_c)

theorem enricher_people_witness:
  "commits four_author_repo = Some four_commits
   \<and> map author four_commits = [''ann'', ''bob'', ''ann'', ''cy'']
   \<and> (\<exists>nr. fst (nice_repo_of down_services four_author_repo demo_world) = Inr nr
         \<and> map username (people nr) = [''ann'', ''bob'', ''cy'']
         \<and> length (people nr) = 3
         \<and> map technologies (people nr) = [[], [], []])
   \<and> new_Set [''ann'', ''bob'', ''ann'', ''cy''] = [''ann'', ''bob'', ''cy'']
   \<and> getByUsername down_services (clock demo_world) ''ann'' = Inl (RequestError ''503'')
   \<and> fst (technologies_try down_services ''ann'' demo_world) = Inl (RequestError ''503'')
   \<and> fst (getTechnologiesForContributor down_services ''ann'' demo_world) = []
   \<and> getByUsername down_services
         (clock (snd (getTechnologiesForContributor down_services ''ann'' demo_world))) ''ann''
        = Inl (RequestError ''503'')
   \<and> technologies (fst (process_author down_services ''ann'' demo_world)) = []
   \<and> listForUser profile_services (clock demo_world + 1) ''ann'' = Inl (RequestError ''503'')
   \<and> fst (technologies_try profile_services ''ann'' demo_world) = Inl (RequestError ''503'')
   \<and> listLanguages repos_services (clock demo_world + 2) ''ann'' ''tool''
        = Inl (RequestError ''503'')
   \<and> fst (technologies_try repos_services ''ann'' demo_world) = Inl (RequestError ''503'')
   \<and> (\<forall>k p. isl (chat_completion no_chat_services k p))
   \<and> isl (fst (technologies_try no_chat_services ''ann'' demo_world))
   \<and> data (fst (db_select down_services 107 scraped_world))
        = Some (elastic\<lparr>scraped_data := Some [four_author_repo]\<rparr>)
   \<and> fst (updateNiceData down_services 107 scraped_world) = None
   \<and> (\<exists>nr. fst (nice_repo_of mixed_services four_author_repo demo_world) = Inr nr
         \<and> map username (people nr) = [''ann'', ''bob'', ''cy'']
         \<and> isl (fst (technologies_try mixed_services ''ann''
                        (people_worlds mixed_services four_commits demo_world ! 0)))
         \<and> technologies (people nr ! 0) = []
         \<and> map technologies (people nr) = [[], [''Rust'', ''C''], [''Rust'', ''C'']])
   \<and> listForUser no_repos_services (clock demo_world + 1) ''ann'' = Inr None
   \<and> chat_completion no_repos_services (clock demo_world + 2)
         (technologies_prompt ''Rust'' []) = Inl (RequestError ''503'')
   \<and> isl (fst (technologies_try no_repos_services ''ann'' demo_world))
   \<and> listLanguages null_chat_services (clock demo_world + 2) ''ann'' ''tool''
        = Inr [''Rust'', ''C'']
   \<and> chat_completion null_chat_services (clock demo_world + 3)
         (technologies_prompt ''Rust'' ''Repository: tool. Languages: Rust, C.'') = Inr None
   \<and> isl (fst (technologies_try null_chat_services ''ann'' demo_world))
   \<and> fst (technologies_try mixed_services ''bob'' demo_world) = Inr [''Rust'', ''C'']
   \<and> technologies (fst (process_author mixed_services ''bob'' demo_world)) = [''Rust'', ''C'']
   \<and> updates (snd (updateNiceData down_services 107 scraped_world)) =
        [(107, NiceData [projr (fst (nice_repo_of down_services four_author_repo
                                       (tick scraped_world)))])]"
proof -
  note inst = enricher_people
    [where r = four_author_repo and cs = four_commits and sv = down_services
       and w = demo_world and a = "''ann''" and b = "''bob''" and c = "''cy''"
       and au = "''ann''" and e = "RequestError ''503''"]
  have c: "commits four_author_repo = Some four_commits"
    by (simp add: four_author_repo_def)
  from inst [THEN conjunct1] c obtain nr
    where n: "fst (nice_repo_of down_services four_author_repo demo_world) = Inr nr"
      and u: "map username (people nr) = new_Set (map author four_commits)"
    by blast
  have s: "new_Set [''ann'', ''bob'', ''ann'', ''cy''] = [''ann'', ''bob'', ''cy'']"
    using inst [THEN conjunct2, THEN conjunct1] by simp
  have u': "map username (people nr) = [''ann'', ''bob'', ''cy'']"
    unfolding u four_authors by (rule s)
  have l': "length (people nr) = 3"
    using arg_cong [OF u', of length] by simp
  have t: "map technologies (people nr) = [[], [], []]"
    using down_people by (simp add: n)
  have ex: "\<exists>nr. fst (nice_repo_of down_services four_author_repo demo_world) = Inr nr
         \<and> map username (people nr) = [''ann'', ''bob'', ''cy'']
         \<and> length (people nr) = 3
         \<and> map technologies (people nr) = [[], [], []]"
    by (intro exI [of _ nr] conjI) (rule n u' l' t)+
  have g: "getByUsername down_services (clock demo_world) ''ann'' = Inl (RequestError ''503'')"
    by (simp add: down_services_def)
  from inst [THEN conjunct2, THEN conjunct2, THEN conjunct2, THEN conjunct1] g
  have f: "fst (technologies_try down_services ''ann'' demo_world) = Inl (RequestError ''503'')"
    by (rule mp)
  from inst [THEN conjunct2, THEN conjunct2, THEN conjunct1] f
  have gt: "fst (getTechnologiesForContributor down_services ''ann'' demo_world) = []"
    by simp
  have g2: "getByUsername down_services
         (clock (snd (getTechnologiesForContributor down_services ''ann'' demo_world))) ''ann''
        = Inl (RequestError ''503'')"
    by (simp add: down_services_def)
  from inst [THEN conjunct2, THEN conjunct2, THEN conjunct2, THEN conjunct2, THEN conjunct2,
      THEN conjunct2, THEN conjunct2, THEN conjunct1] g2
  have p: "technologies (fst (process_author down_services ''ann'' demo_world)) = []"
    by (rule mp)
  let ?prof = "\<lparr>profile_name = Some ''Ann Lee'', bio = Some ''Rust''\<rparr>"
  have pr: "getByUsername profile_services (clock demo_world) ''ann'' = Inr ?prof"
    "getByUsername repos_services (clock demo_world) ''ann'' = Inr ?prof"
    "getByUsername no_repos_services (clock demo_world) ''ann'' = Inr ?prof"
    "getByUsername null_chat_services (clock demo_world) ''ann'' = Inr ?prof"
    by (simp_all add: null_chat_services_def no_chat_services_def no_repos_services_def
        repos_services_def profile_services_def)
  have lu: "listForUser profile_services (clock demo_world + 1) ''ann''
        = Inl (RequestError ''503'')"
    by (simp add: profile_services_def down_services_def)
  have tp: "fst (technologies_try profile_services ''ann'' demo_world)
        = Inl (RequestError ''503'')"
    using enricher_people
      [where sv = profile_services and w = demo_world and au = "''ann''"
         and e = "RequestError ''503''" and u = ?prof,
        THEN conjunct2, THEN conjunct2, THEN conjunct2, THEN conjunct2, THEN conjunct1]
      pr(1) lu
    by simp
  have lr: "listForUser repos_services (clock demo_world + 1) ''ann'' = Inr (Some [''tool''])"
    "listForUser null_chat_services (clock demo_world + 1) ''ann'' = Inr (Some [''tool''])"
    by (simp_all add: null_chat_services_def no_chat_services_def repos_services_def)
  have ll: "listLanguages repos_services (clock demo_world + 2) ''ann'' ''tool''
        = Inl (RequestError ''503'')"
    by (simp add: repos_services_def profile_services_def down_services_def)
  have tr: "fst (technologies_try repos_services ''ann'' demo_world)
        = Inl (RequestError ''503'')"
    using enricher_people
      [where sv = repos_services and w = demo_world and au = "''ann''"
         and e = "RequestError ''503''" and u = ?prof and t = "''tool''" and ts = "[]",
        THEN conjunct2, THEN conjunct2, THEN conjunct2, THEN conjunct2, THEN conjunct2,
        THEN conjunct1]
      pr(2) lr(1) ll
    by simp
  have nc: "\<forall>k p. isl (chat_completion no_chat_services k p)"
    by (simp add: no_chat_services_def repos_services_def profile_services_def
        down_services_def)
  have tn: "isl (fst (technologies_try no_chat_services ''ann'' demo_world))"
    using enricher_people
      [where sv = no_chat_services and w = demo_world and au = "''ann''",
        THEN conjunct2, THEN conjunct2, THEN conjunct2, THEN conjunct2, THEN conjunct2,
        THEN conjunct2, THEN conjunct1]
      nc
    by (rule mp)
  have d: "data (fst (db_select down_services 107 scraped_world))
        = Some (elastic\<lparr>scraped_data := Some [four_author_repo]\<rparr>)"
    and de: "error (fst (db_select down_services 107 scraped_world)) = None"
    by (simp_all add: db_select_def down_services_def scraped_world_def demo_world_def)
  have h: "\<forall>company rs. data (fst (db_select down_services 107 scraped_world)) = Some company
          \<and> scraped_data company = Some rs \<longrightarrow> (\<forall>r \<in> set rs. commits r \<noteq> None)"
    unfolding d by (auto simp: four_author_repo_def)
  have e: "fst (updateNiceData down_services 107 scraped_world) = None"
    using enricher_people
      [where sv = down_services and w = scraped_world and cid = 107,
        THEN conjunct2, THEN conjunct2, THEN conjunct2, THEN conjunct2, THEN conjunct2,
        THEN conjunct2, THEN conjunct2, THEN conjunct2, THEN conjunct1] h
    by (rule mp)
  from enricher_people
    [where r = four_author_repo and cs = four_commits and sv = mixed_services
       and w = demo_world, THEN conjunct1] c
  obtain mr
    where mn: "fst (nice_repo_of mixed_services four_author_repo demo_world) = Inr mr"
      and mu: "map username (people mr) = new_Set (map author four_commits)"
      and me: "\<forall>i < length (people mr).
               username (people mr ! i) = new_Set (map author four_commits) ! i
               \<and> (isl (fst (technologies_try mixed_services
                                (new_Set (map author four_commits) ! i)
                                (people_worlds mixed_services four_commits demo_world ! i)))
                    \<longrightarrow> technologies (people mr ! i) = [])
               \<and> (isl (getByUsername mixed_services
                          (clock (snd (getTechnologiesForContributor mixed_services
                                         (new_Set (map author four_commits) ! i)
                                         (people_worlds mixed_services four_commits
                                            demo_world ! i))))
                          (new_Set (map author four_commits) ! i))
                    \<longrightarrow> technologies (people mr ! i) = [])"
    by blast
  have mu': "map username (people mr) = [''ann'', ''bob'', ''cy'']"
    unfolding mu by (rule four_unique)
  have ml: "0 < length (people mr)"
    using arg_cong [OF mu', of length] by simp
  let ?w0 = "people_worlds mixed_services four_commits demo_world ! 0"
  have "getByUsername mixed_services (clock ?w0) ''ann'' = Inl (RequestError ''404'')"
    by (simp add: mixed_services_def)
  with enricher_people
    [where sv = mixed_services and w = ?w0 and au = "''ann''" and e = "RequestError ''404''",
      THEN conjunct2, THEN conjunct2, THEN conjunct2, THEN conjunct1]
  have "fst (technologies_try mixed_services ''ann'' ?w0) = Inl (RequestError ''404'')"
    by (rule mp)
  then have mi: "isl (fst (technologies_try mixed_services ''ann'' ?w0))" by simp
  from me ml mi have m0: "technologies (people mr ! 0) = []"
    by (simp add: four_unique)
  have mt: "map technologies (people mr) = [[], [''Rust'', ''C''], [''Rust'', ''C'']]"
    using mixed_people by (simp add: mn)
  have mex: "\<exists>nr. fst (nice_repo_of mixed_services four_author_repo demo_world) = Inr nr
         \<and> map username (people nr) = [''ann'', ''bob'', ''cy'']
         \<and> isl (fst (technologies_try mixed_services ''ann''
                        (people_worlds mixed_services four_commits demo_world ! 0)))
         \<and> technologies (people nr ! 0) = []
         \<and> map technologies (people nr) = [[], [''Rust'', ''C''], [''Rust'', ''C'']]"
    by (intro exI [of _ mr] conjI) (rule mn mu' mi m0 mt)+
  have nl: "listForUser no_repos_services (clock demo_world + 1) ''ann'' = Inr None"
    by (simp add: no_repos_services_def)
  have nch: "chat_completion no_repos_services (clock demo_world + 2)
         (technologies_prompt ''Rust'' []) = Inl (RequestError ''503'')"
    by (simp add: no_repos_services_def profile_services_def down_services_def)
  have nt: "isl (fst (technologies_try no_repos_services ''ann'' demo_world))"
    using enricher_people
      [where sv = no_repos_services and w = demo_world and au = "''ann''" and u = ?prof
         and rd = None,
        THEN conjunct2, THEN conjunct2, THEN conjunct2, THEN conjunct2, THEN conjunct2,
        THEN conjunct2, THEN conjunct2, THEN conjunct2, THEN conjunct2, THEN conjunct1]
      pr(3) nl nch
    by simp
  have kl: "listLanguages null_chat_services (clock demo_world + 2) ''ann'' ''tool''
        = Inr [''Rust'', ''C'']"
    by (simp add: null_chat_services_def no_chat_services_def)
  have kch: "chat_completion null_chat_services (clock demo_world + 3)
         (technologies_prompt ''Rust'' ''Repository: tool. Languages: Rust, C.'') = Inr None"
    by (simp add: null_chat_services_def)
  have kt: "isl (fst (technologies_try null_chat_services ''ann'' demo_world))"
    using enricher_people
      [where sv = null_chat_services and w = demo_world and au = "''ann''" and u = ?prof
         and t = "''tool''" and ts = "[]" and langs = "[''Rust'', ''C'']",
        THEN conjunct2, THEN conjunct2, THEN conjunct2, THEN conjunct2, THEN conjunct2,
        THEN conjunct2, THEN conjunct2, THEN conjunct2, THEN conjunct2, THEN conjunct2,
        THEN conjunct1]
      pr(4) lr(2) kl kch
    by simp
  have b2: "getByUsername mixed_services
       (clock (snd (getTechnologiesForContributor mixed_services ''bob'' demo_world))) ''bob''
      = Inr \<lparr>profile_name = None, bio = None\<rparr>"
    by (simp add: mixed_services_def)
  have bt: "technologies (fst (process_author mixed_services ''bob'' demo_world))
        = [''Rust'', ''C'']"
    using enricher_people
      [where sv = mixed_services and w = demo_world and au = "''bob''"
         and techs = "[''Rust'', ''C'']" and u = "\<lparr>profile_name = None, bio = None\<rparr>",
        THEN conjunct2, THEN conjunct2, THEN conjunct2, THEN conjunct2, THEN conjunct2,
        THEN conjunct2, THEN conjunct2, THEN conjunct2, THEN conjunct2, THEN conjunct2,
        THEN conjunct2, THEN conjunct1]
      mixed_bob b2
    by simp
  have sc: "scraped_data (elastic\<lparr>scraped_data := Some [four_author_repo]\<rparr>)
        = Some [four_author_repo]"
    by simp
  have al: "\<forall>r \<in> set [four_author_repo]. commits r \<noteq> None"
    by (simp add: four_author_repo_def)
  have uw: "updates scraped_world = []"
    by (simp add: scraped_world_def demo_world_def)
  have up: "updates (snd (updateNiceData down_services 107 scraped_world)) =
        [(107, NiceData [projr (fst (nice_repo_of down_services four_author_repo
                                       (tick scraped_world)))])]"
    using enricher_people
      [where sv = down_services and w = scraped_world and cid = 107
         and co = "elastic\<lparr>scraped_data := Some [four_author_repo]\<rparr>"
         and repos = "[four_author_repo]",
        THEN conjunct2, THEN conjunct2, THEN conjunct2, THEN conjunct2, THEN conjunct2,
        THEN conjunct2, THEN conjunct2, THEN conjunct2, THEN conjunct2, THEN conjunct2,
        THEN conjunct2, THEN conjunct2]
      de d sc al uw
    by simp
  show ?thesis
    by (intro conjI)
       (rule c four_authors ex s g f gt g2 p lu tp ll tr nc tn d e mex nl nch nt kl kch kt
          mixed_bob bt up)+
qed

end
